theory Spec2Isabelle
  imports Main "HOL-Library.Multiset" "HOL-Library.Sublist"
begin

section \<open>Package templates: configuration model and directory policy\<close>

text \<open>
  Go's \<^verbatim>\<open>type ProjectType string\<close>: a project type is any string; three values
  are named. Go strings are byte sequences, and so are HOL strings.
\<close>

type_synonym ProjectType = string

definition TypeCLI :: ProjectType where
  "TypeCLI = ''cli''"

definition TypeLibrary :: ProjectType where
  "TypeLibrary = ''library''"

definition TypeService :: ProjectType where
  "TypeService = ''service''"

record ProjectConfig =
  ProjectName :: string
  ModulePath :: string
  Author :: string
  License :: string
  Type :: ProjectType

text \<open>
  \<^verbatim>\<open>DirectoryStructure\<close> (templates.go, lines 44-101): a switch over the project type
  with the cases in the source's order and a default branch.
\<close>

definition DirectoryStructure :: "ProjectType \<Rightarrow> string list" where
  "DirectoryStructure projectType =
     (if projectType = TypeLibrary then
        [''internal'', ''pkg'', ''cmd'', ''scripts'', ''test'', ''docs'', ''examples'']
      else if projectType = TypeCLI then
        [''cmd'', ''internal'', ''pkg'', ''api'', ''configs'', ''scripts'', ''build'',
         ''test'', ''docs'', ''examples'']
      else if projectType = TypeService then
        [''cmd'', ''internal'', ''pkg'', ''api'', ''web'', ''configs'', ''scripts'',
         ''build'', ''test'', ''docs'', ''examples'']
      else
        [''cmd'', ''internal'', ''pkg'', ''api'', ''configs'', ''scripts'', ''build'',
         ''test'', ''docs'', ''examples''])"

section \<open>Errors\<close>

text \<open>
  Every \<^verbatim>\<open>fmt.Errorf\<close> site of the program is a constructor of \<open>error\<close>; the
  wrapped cause is an operating-system error or a template error. A Go \<^verbatim>\<open>error\<close>
  result is an \<open>error option\<close>, \<open>None\<close> being \<^verbatim>\<open>nil\<close>.
\<close>

datatype os_error = ENOENT | ENOTDIR | EISDIR | EEXIST | ELOOP

datatype tmpl_error = NotExist | ParseError | ExecError

datatype error =
    ErrAlreadyExists string
  | ErrCreateProjectDir os_error
  | ErrCreateDir string os_error
  | ErrCreateCmdDir os_error
  | ErrCreateWorkflowsDir os_error
  | ErrReadWorkflow string tmpl_error
  | ErrWriteWorkflow string os_error
  | ErrLoadTemplate string tmpl_error
  | ErrExecuteTemplate string tmpl_error
  | ErrWriteFile string os_error
  | ErrNameEmpty
  | ErrNameInvalidChars
  | ErrInvalidProjectType string
  | ErrGetwd os_error
  | ErrForm

section \<open>Paths: \<^verbatim>\<open>filepath.Clean\<close> and \<^verbatim>\<open>filepath.Join\<close> on Unix\<close>

text \<open>
  The generator builds every path with \<^verbatim>\<open>filepath.Join\<close>, which joins the elements
  from the first non-empty one on with the separator and cleans the result.
  \<^verbatim>\<open>Clean\<close> drops empty and \<^verbatim>\<open>.\<close> elements, lets \<^verbatim>\<open>..\<close> remove the element
  before it (at the root it is dropped, in a relative path with nothing left to
  remove it is kept), and turns the empty result into \<^verbatim>\<open>.\<close>.
\<close>

fun split_sep :: "string \<Rightarrow> string list" where
  "split_sep [] = [[]]"
| "split_sep (c # s) =
     (if c = CHR ''/'' then [] # split_sep s
      else (case split_sep s of [] \<Rightarrow> [[c]] | x # xs \<Rightarrow> (c # x) # xs))"

fun join_sep :: "string list \<Rightarrow> string" where
  "join_sep [] = []"
| "join_sep [x] = x"
| "join_sep (x # y # ys) = x @ ''/'' @ join_sep (y # ys)"

definition is_rooted :: "string \<Rightarrow> bool" where
  "is_rooted s = (case s of [] \<Rightarrow> False | c # _ \<Rightarrow> c = CHR ''/'')"

definition clean_step :: "bool \<Rightarrow> string list \<Rightarrow> string \<Rightarrow> string list" where
  "clean_step rooted out e =
     (if e = [] \<or> e = ''.'' then out
      else if e = ''..'' then
        (if out \<noteq> [] \<and> last out \<noteq> ''..'' then butlast out
         else if rooted then out
         else out @ [''..''])
      else out @ [e])"

definition clean_elems :: "bool \<Rightarrow> string list \<Rightarrow> string list" where
  "clean_elems rooted es = foldl (clean_step rooted) [] es"

definition Clean :: "string \<Rightarrow> string" where
  "Clean path =
     (if path = [] then ''.''
      else
        (let rooted = is_rooted path;
             out = (if rooted then ''/'' else []) @ join_sep (clean_elems rooted (split_sep path))
         in if out = [] then ''.'' else out))"

definition Join :: "string list \<Rightarrow> string" where
  "Join elem =
     (case dropWhile (\<lambda>e. e = []) elem of
        [] \<Rightarrow> []
      | es \<Rightarrow> Clean (join_sep es))"

section \<open>The file system\<close>

text \<open>
  A file system state maps a resolved path to the entry there, if there is one.
  A resolved path is what the kernel's path walk makes of a path string when there are no
  symbolic links: whether it starts at the root, and the list of its names (every path
  the generator hands to the operating system comes out of \<^verbatim>\<open>Join\<close>, so it is
  cleaned already). The root, the working directory and the directories above the working
  directory are always there.

  An entry is a directory, a regular file, or a symbolic link that points at itself (as
  \<^verbatim>\<open>ln -s demo demo\<close> makes one). Such a link is an entry of its directory, and
  what it does never depends on the rest of the disk: following it is the error
  \<^verbatim>\<open>ELOOP\<close>, for \<^verbatim>\<open>stat\<close>, for opening it and for every path through it, while
  \<^verbatim>\<open>mkdir\<close> on it is the error \<^verbatim>\<open>EEXIST\<close>. Links that lead elsewhere,
  permissions and full disks are not modelled, so the failures are a missing parent, a
  file or link where a directory is needed, and a directory or link where a file is
  written.
\<close>

datatype node = Dir | File string | SelfLink

type_synonym path = "bool \<times> string list"

type_synonym filesystem = "path \<Rightarrow> node option"

definition resolve :: "string \<Rightarrow> path option" where
  "resolve s =
     (if s = [] then None
      else Some (is_rooted s, clean_elems (is_rooted s) (split_sep s)))"

definition node_at :: "filesystem \<Rightarrow> path \<Rightarrow> node option" where
  "node_at fs p = (if list_all (\<lambda>e. e = ''..'') (snd p) then Some Dir else fs p)"

definition parent :: "path \<Rightarrow> path" where
  "parent p = (fst p, butlast (snd p))"

text \<open>
  \<^verbatim>\<open>os.Stat(path)\<close>, as the program uses it: was the error \<^verbatim>\<open>nil\<close>? It follows
  links, so it is for a directory and for a file, and not for a link that cannot be
  followed.
\<close>

definition os_Stat :: "filesystem \<Rightarrow> string \<Rightarrow> bool" where
  "os_Stat fs name =
     (case resolve name of
        None \<Rightarrow> False
      | Some p \<Rightarrow>
          (case node_at fs p of
             Some Dir \<Rightarrow> True
           | Some (File _) \<Rightarrow> True
           | Some SelfLink \<Rightarrow> False
           | None \<Rightarrow> False))"

text \<open>
  \<^verbatim>\<open>os.MkdirAll\<close>, with Go's recursion: a path that is a directory is done, a path
  that is a file is the error, and for a path \<^verbatim>\<open>Stat\<close> fails on the parent is made
  first and then \<^verbatim>\<open>Mkdir\<close> is called on the path itself. On a link that is
  \<^verbatim>\<open>EEXIST\<close>, which \<^verbatim>\<open>MkdirAll\<close> returns since the link is no directory; on a
  missing path, with the parent in place, it has no way to fail here. \<open>mkdir_all\<close>
  takes the names of the path last name first, so that its recursion is the walk up to
  the parent.
\<close>

fun mkdir_all :: "filesystem \<Rightarrow> bool \<Rightarrow> string list \<Rightarrow> os_error + filesystem" where
  "mkdir_all fs rooted [] = Inr fs"
| "mkdir_all fs rooted (e # up) =
     (case node_at fs (rooted, rev (e # up)) of
        Some Dir \<Rightarrow> Inr fs
      | Some (File _) \<Rightarrow> Inl ENOTDIR
      | Some SelfLink \<Rightarrow>
          (case mkdir_all fs rooted up of
             Inl err \<Rightarrow> Inl err
           | Inr fs' \<Rightarrow> Inl EEXIST)
      | None \<Rightarrow>
          (case mkdir_all fs rooted up of
             Inl err \<Rightarrow> Inl err
           | Inr fs' \<Rightarrow> Inr (fs'((rooted, rev (e # up)) \<mapsto> Dir))))"

definition os_MkdirAll :: "filesystem \<Rightarrow> string \<Rightarrow> os_error + filesystem" where
  "os_MkdirAll fs name =
     (case resolve name of
        None \<Rightarrow> Inl ENOENT
      | Some p \<Rightarrow> mkdir_all fs (fst p) (rev (snd p)))"

text \<open>
  \<^verbatim>\<open>os.WriteFile\<close>: the parent must be a directory and the target neither a directory
  nor a link that cannot be followed; the file is created or replaced with the bytes
  given.
\<close>

definition os_WriteFile :: "filesystem \<Rightarrow> string \<Rightarrow> string \<Rightarrow> os_error + filesystem" where
  "os_WriteFile fs name content =
     (case resolve name of
        None \<Rightarrow> Inl ENOENT
      | Some p \<Rightarrow>
          (case node_at fs (parent p) of
             None \<Rightarrow> Inl ENOENT
           | Some (File _) \<Rightarrow> Inl ENOTDIR
           | Some SelfLink \<Rightarrow> Inl ELOOP
           | Some Dir \<Rightarrow>
               (case node_at fs p of
                  Some Dir \<Rightarrow> Inl EISDIR
                | Some SelfLink \<Rightarrow> Inl ELOOP
                | Some (File _) \<Rightarrow> Inr (fs(p \<mapsto> File content))
                | None \<Rightarrow> Inr (fs(p \<mapsto> File content)))))"

section \<open>The template source and the Go runtime\<close>

text \<open>
  The embedded file tree \<^verbatim>\<open>templateFS\<close> and Go's \<^verbatim>\<open>text/template\<close> are not code of
  this repository. They are parameters of the model: the embedded files as a map from
  their full names to their bytes, and the template engine as \<open>Parse\<close>, which takes a
  template's name and text and gives an error or the parsed template. A parsed template
  is what \<^verbatim>\<open>Execute\<close> does with it: a function from the configuration to an error or
  the text written to the buffer.

  Go leaves the order in which \<^verbatim>\<open>range\<close> visits a map open. \<open>rangeOrder\<close> is the
  order the runtime picks for a map's entries; the theorems that depend on it assume only
  that it visits every entry once (\<open>visits_each_once\<close>).
\<close>

type_synonym template = "ProjectConfig \<Rightarrow> tmpl_error + string"

record env =
  templateFS :: "string \<Rightarrow> string option"
  Parse :: "string \<Rightarrow> string \<Rightarrow> tmpl_error + template"
  rangeOrder :: "(string \<times> string) list \<Rightarrow> (string \<times> string) list"

definition visits_each_once :: "env \<Rightarrow> bool" where
  "visits_each_once E = (\<forall>m. mset (rangeOrder E m) = mset m)"

definition GetTemplate :: "env \<Rightarrow> string \<Rightarrow> tmpl_error + template" where
  "GetTemplate E name =
     (case templateFS E (''files/'' @ name) of
        None \<Rightarrow> Inl NotExist
      | Some content \<Rightarrow> Parse E name content)"

definition GetWorkflowFile :: "env \<Rightarrow> string \<Rightarrow> tmpl_error + string" where
  "GetWorkflowFile E name =
     (case templateFS E (''files/'' @ name) of
        None \<Rightarrow> Inl NotExist
      | Some content \<Rightarrow> Inr content)"

text \<open>
  A fragment of \<^verbatim>\<open>text/template\<close>, for concrete runs: text outside actions is copied,
  and an action is one of the five fields of the configuration, written without blanks.
  Any other action is outside the fragment and is reported as a parse error here.
\<close>

definition field_actions :: "ProjectConfig \<Rightarrow> (string \<times> string) list" where
  "field_actions c =
     [(''{{.ProjectName}}'', ProjectName c),
      (''{{.ModulePath}}'', ModulePath c),
      (''{{.Author}}'', Author c),
      (''{{.License}}'', License c),
      (''{{.Type}}'', Type c)]"

fun starts_with :: "string \<Rightarrow> string \<Rightarrow> bool" where
  "starts_with [] s = True"
| "starts_with (a # as) [] = False"
| "starts_with (a # as) (c # s) = (a = c \<and> starts_with as s)"

fun expand :: "ProjectConfig \<Rightarrow> nat \<Rightarrow> string \<Rightarrow> string option" where
  "expand c skip [] = Some []"
| "expand c (Suc n) (x # s) = expand c n s"
| "expand c 0 (x # s) =
     (case filter (\<lambda>(a, v). starts_with a (x # s)) (field_actions c) of
        (a, v) # _ \<Rightarrow> map_option (\<lambda>r. v @ r) (expand c (length a - 1) s)
      | [] \<Rightarrow>
          (if starts_with ''{{'' (x # s) then None
           else map_option (\<lambda>r. x # r) (expand c 0 s)))"

definition fragment_Parse :: "string \<Rightarrow> string \<Rightarrow> tmpl_error + template" where
  "fragment_Parse name content =
     (case expand \<lparr>ProjectName = [], ModulePath = [], Author = [], License = [], Type = []\<rparr>
             0 content of
        None \<Rightarrow> Inl ParseError
      | Some _ \<Rightarrow>
          Inr (\<lambda>c. case expand c 0 content of None \<Rightarrow> Inl ExecError | Some out \<Rightarrow> Inr out))"

section \<open>Package generator\<close>

record world =
  disk :: filesystem
  stdout :: "string list"

text \<open>
  \<open>stdout\<close> holds the lines printed so far, each without its final newline; a format
  that starts with a newline prints an empty line first.
\<close>

record Generator =
  config :: ProjectConfig
  baseDir :: string
  dryRun :: bool

definition New :: "ProjectConfig \<Rightarrow> string \<Rightarrow> bool \<Rightarrow> Generator" where
  "New cfg dir dry = \<lparr>config = cfg, baseDir = dir, dryRun = dry\<rparr>"

text \<open>\<^verbatim>\<open>ValidateProjectName\<close> (generator, lines 273-283).\<close>

definition ContainsAny :: "string \<Rightarrow> string \<Rightarrow> bool" where
  "ContainsAny s chars = list_ex (\<lambda>c. c \<in> set chars) s"

definition invalid_chars :: string where
  "invalid_chars =
     [CHR '' '', CHR ''/'', CHR 0x5C, CHR '':'', CHR ''*'', CHR ''?'', CHR 0x22,
      CHR ''<'', CHR ''>'', CHR ''|'']"

definition ValidateProjectName :: "string \<Rightarrow> error option" where
  "ValidateProjectName name =
     (if name = [] then Some ErrNameEmpty
      else if ContainsAny name invalid_chars then Some ErrNameInvalidChars
      else None)"

text \<open>\<^verbatim>\<open>createDirectories\<close> (lines 62-85): the loop stops at the first failure.\<close>

fun mkdir_each :: "string \<Rightarrow> string list \<Rightarrow> filesystem \<Rightarrow> error option \<times> filesystem" where
  "mkdir_each projectPath [] fs = (None, fs)"
| "mkdir_each projectPath (dir # dirs) fs =
     (case os_MkdirAll fs (Join [projectPath, dir]) of
        Inl e \<Rightarrow> (Some (ErrCreateDir dir e), fs)
      | Inr fs' \<Rightarrow> mkdir_each projectPath dirs fs')"

definition createDirectories :: "Generator \<Rightarrow> string \<Rightarrow> world \<Rightarrow> error option \<times> world" where
  "createDirectories g projectPath w =
     (case mkdir_each projectPath (DirectoryStructure (Type (config g))) (disk w) of
        (Some e, fs1) \<Rightarrow> (Some e, w\<lparr>disk := fs1\<rparr>)
      | (None, fs1) \<Rightarrow>
          (case os_MkdirAll fs1 (Join [projectPath, ''cmd'', ProjectName (config g)]) of
             Inl e \<Rightarrow> (Some (ErrCreateCmdDir e), w\<lparr>disk := fs1\<rparr>)
           | Inr fs2 \<Rightarrow>
               (case os_MkdirAll fs2 (Join [projectPath, ''.github'', ''workflows'']) of
                  Inl e \<Rightarrow> (Some (ErrCreateWorkflowsDir e), w\<lparr>disk := fs2\<rparr>)
                | Inr fs3 \<Rightarrow> (None, w\<lparr>disk := fs3\<rparr>))))"

text \<open>\<^verbatim>\<open>generateFile\<close> (lines 191-208): load, execute, write.\<close>

definition generateFile ::
  "Generator \<Rightarrow> env \<Rightarrow> string \<Rightarrow> string \<Rightarrow> string \<Rightarrow> world \<Rightarrow> error option \<times> world" where
  "generateFile g E projectPath fileName templateName w =
     (case GetTemplate E templateName of
        Inl e \<Rightarrow> (Some (ErrLoadTemplate templateName e), w)
      | Inr tmpl \<Rightarrow>
          (case tmpl (config g) of
             Inl e \<Rightarrow> (Some (ErrExecuteTemplate templateName e), w)
           | Inr buf \<Rightarrow>
               (case os_WriteFile (disk w) (Join [projectPath, fileName]) buf of
                  Inl e \<Rightarrow> (Some (ErrWriteFile fileName e), w)
                | Inr fs' \<Rightarrow> (None, w\<lparr>disk := fs'\<rparr>))))"

text \<open>\<^verbatim>\<open>copyWorkflowFile\<close> (lines 174-188): read the bytes, write the bytes.\<close>

definition copyWorkflowFile ::
  "Generator \<Rightarrow> env \<Rightarrow> string \<Rightarrow> string \<Rightarrow> string \<Rightarrow> world \<Rightarrow> error option \<times> world" where
  "copyWorkflowFile g E projectPath destPath srcPath w =
     (case GetWorkflowFile E srcPath of
        Inl e \<Rightarrow> (Some (ErrReadWorkflow srcPath e), w)
      | Inr content \<Rightarrow>
          (case os_WriteFile (disk w) (Join [projectPath, destPath]) content of
             Inl e \<Rightarrow> (Some (ErrWriteWorkflow destPath e), w)
           | Inr fs' \<Rightarrow> (None, w\<lparr>disk := fs'\<rparr>)))"

text \<open>\<^verbatim>\<open>getMakefileTemplate\<close> (lines 130-141).\<close>

definition getMakefileTemplate :: "Generator \<Rightarrow> string" where
  "getMakefileTemplate g =
     (if Type (config g) = TypeLibrary then ''Makefile-library.tmpl''
      else if Type (config g) = TypeService then ''Makefile-service.tmpl''
      else if Type (config g) = TypeCLI then ''Makefile-cli.tmpl''
      else ''Makefile-cli.tmpl'')"

text \<open>
  \<^verbatim>\<open>generateWorkflowFiles\<close> (lines 144-171): the common workflows are copied with
  \<^verbatim>\<open>copyWorkflowFile\<close>; the release workflow, chosen by the project type, is written
  with \<^verbatim>\<open>generateFile\<close>.
\<close>

definition commonWorkflows :: "(string \<times> string) list" where
  "commonWorkflows = [(''.github/workflows/test.yml'', ''.github/workflows/test.yml'')]"

fun copy_each ::
  "Generator \<Rightarrow> env \<Rightarrow> string \<Rightarrow> (string \<times> string) list \<Rightarrow> world \<Rightarrow> error option \<times> world" where
  "copy_each g E projectPath [] w = (None, w)"
| "copy_each g E projectPath ((filePath, templatePath) # rest) w =
     (case copyWorkflowFile g E projectPath filePath templatePath w of
        (Some e, w') \<Rightarrow> (Some e, w')
      | (None, w') \<Rightarrow> copy_each g E projectPath rest w')"

definition releaseWorkflow :: "Generator \<Rightarrow> string" where
  "releaseWorkflow g =
     (if Type (config g) = TypeLibrary then ''.github/workflows/release-library.yml''
      else if Type (config g) = TypeService then ''.github/workflows/release-service.yml''
      else if Type (config g) = TypeCLI then ''.github/workflows/release-cli.yml''
      else ''.github/workflows/release-cli.yml'')"

definition generateWorkflowFiles ::
  "Generator \<Rightarrow> env \<Rightarrow> string \<Rightarrow> world \<Rightarrow> error option \<times> world" where
  "generateWorkflowFiles g E projectPath w =
     (case copy_each g E projectPath (rangeOrder E commonWorkflows) w of
        (Some e, w') \<Rightarrow> (Some e, w')
      | (None, w') \<Rightarrow>
          generateFile g E projectPath ''.github/workflows/release.yml'' (releaseWorkflow g) w')"

text \<open>
  \<^verbatim>\<open>createGitkeepFiles\<close> (lines 211-233): \<^verbatim>\<open>skipDirs\<close> is a map with the one key
  \<^verbatim>\<open>cmd\<close>, and a missing key reads as false. Both branches of the write go on with the
  next directory.
\<close>

definition skipDirs :: "string \<Rightarrow> bool" where
  "skipDirs dir = (dir = ''cmd'')"

fun gitkeep_each :: "string \<Rightarrow> string list \<Rightarrow> filesystem \<Rightarrow> filesystem" where
  "gitkeep_each projectPath [] fs = fs"
| "gitkeep_each projectPath (dir # dirs) fs =
     (if skipDirs dir then gitkeep_each projectPath dirs fs
      else
        (case os_WriteFile fs (Join [projectPath, dir, ''.gitkeep'']) [] of
           Inl e \<Rightarrow> gitkeep_each projectPath dirs fs
         | Inr fs' \<Rightarrow> gitkeep_each projectPath dirs fs'))"

definition createGitkeepFiles :: "Generator \<Rightarrow> string \<Rightarrow> world \<Rightarrow> error option \<times> world" where
  "createGitkeepFiles g projectPath w =
     (None, w\<lparr>disk := gitkeep_each projectPath (DirectoryStructure (Type (config g))) (disk w)\<rparr>)"

text \<open>
  \<^verbatim>\<open>generateFiles\<close> (lines 88-127): \<open>files\<close> is the map literal with the service
  entry added; the loop visits it in the runtime's order.
\<close>

definition files :: "Generator \<Rightarrow> (string \<times> string) list" where
  "files g =
     [(''README.md'', ''README.md.tmpl''),
      (''Makefile'', getMakefileTemplate g),
      (''.gitignore'', ''gitignore.tmpl''),
      (''go.mod'', ''go.mod.tmpl'')]
     @ (if Type (config g) = TypeService then [(''Dockerfile'', ''Dockerfile-service.tmpl'')]
        else [])"

fun generate_each ::
  "Generator \<Rightarrow> env \<Rightarrow> string \<Rightarrow> (string \<times> string) list \<Rightarrow> world \<Rightarrow> error option \<times> world" where
  "generate_each g E projectPath [] w = (None, w)"
| "generate_each g E projectPath ((fileName, templateName) # rest) w =
     (case generateFile g E projectPath fileName templateName w of
        (Some e, w') \<Rightarrow> (Some e, w')
      | (None, w') \<Rightarrow> generate_each g E projectPath rest w')"

definition generateFiles :: "Generator \<Rightarrow> env \<Rightarrow> string \<Rightarrow> world \<Rightarrow> error option \<times> world" where
  "generateFiles g E projectPath w =
     (case generate_each g E projectPath (rangeOrder E (files g)) w of
        (Some e, w1) \<Rightarrow> (Some e, w1)
      | (None, w1) \<Rightarrow>
          (case generateFile g E projectPath
                  (Join [''cmd'', ProjectName (config g), ''main.go'']) ''main.go.tmpl'' w1 of
             (Some e, w2) \<Rightarrow> (Some e, w2)
           | (None, w2) \<Rightarrow>
               (case generateWorkflowFiles g E projectPath w2 of
                  (Some e, w3) \<Rightarrow> (Some e, w3)
                | (None, w3) \<Rightarrow>
                    (case createGitkeepFiles g projectPath w3 of
                       (Some e, w4) \<Rightarrow> (Some e, w4)
                     | (None, w4) \<Rightarrow> (None, w4)))))"

text \<open>
  \<^verbatim>\<open>generateFiles\<close>, lines 88-119: the function up to the placeholder step.
\<close>

definition generateFiles_templates ::
  "Generator \<Rightarrow> env \<Rightarrow> string \<Rightarrow> world \<Rightarrow> error option \<times> world" where
  "generateFiles_templates g E projectPath w =
     (case generate_each g E projectPath (rangeOrder E (files g)) w of
        (Some e, w1) \<Rightarrow> (Some e, w1)
      | (None, w1) \<Rightarrow>
          (case generateFile g E projectPath
                  (Join [''cmd'', ProjectName (config g), ''main.go'']) ''main.go.tmpl'' w1 of
             (Some e, w2) \<Rightarrow> (Some e, w2)
           | (None, w2) \<Rightarrow> generateWorkflowFiles g E projectPath w2))"

text \<open>
  \<^verbatim>\<open>preview\<close> (lines 236-270). \<open>preview_dirs\<close> and \<open>preview_files\<close> are the entries
  it prints under its two headings, as paths below the project directory.
\<close>

definition preview_dirs :: "Generator \<Rightarrow> string list" where
  "preview_dirs g =
     DirectoryStructure (Type (config g)) @ [''cmd/'' @ ProjectName (config g)]"

definition preview_files :: "Generator \<Rightarrow> string list" where
  "preview_files g =
     [''README.md'', ''Makefile'', ''.gitignore'', ''go.mod'',
      ''cmd/'' @ ProjectName (config g) @ ''/main.go'']
     @ (if Type (config g) = TypeService then [''Dockerfile''] else [])"

definition preview :: "Generator \<Rightarrow> world \<Rightarrow> error option \<times> world" where
  "preview g w =
     (let projectPath = Join [baseDir g, ProjectName (config g)] in
      (None,
       w\<lparr>stdout := stdout w @
           [[], ''Project: '' @ ProjectName (config g),
            ''Location: '' @ projectPath,
            ''Module Path: '' @ ModulePath (config g),
            ''Type: '' @ Type (config g), [],
            ''Directories to be created:'']
           @ map (\<lambda>dir. ''  '' @ dir @ ''/'') (preview_dirs g)
           @ [[], ''Files to be created:'']
           @ map (\<lambda>file. ''  '' @ file) (preview_files g)\<rparr>))"

text \<open>\<^verbatim>\<open>Generate\<close> (lines 30-59).\<close>

definition created_message :: "string \<Rightarrow> string \<Rightarrow> string" where
  "created_message name projectPath =
     [CHR 0xE2, CHR 0x9C, CHR 0x93] @ '' Project '' @ name @ '' created successfully at ''
     @ projectPath"

definition Generate :: "Generator \<Rightarrow> env \<Rightarrow> world \<Rightarrow> error option \<times> world" where
  "Generate g E w =
     (let projectPath = Join [baseDir g, ProjectName (config g)] in
      if os_Stat (disk w) projectPath then (Some (ErrAlreadyExists projectPath), w)
      else if dryRun g then
        preview g (w\<lparr>stdout := stdout w @ [''Dry run mode - no files will be created'']\<rparr>)
      else
        (case os_MkdirAll (disk w) projectPath of
           Inl e \<Rightarrow> (Some (ErrCreateProjectDir e), w)
         | Inr fs1 \<Rightarrow>
             (case createDirectories g projectPath (w\<lparr>disk := fs1\<rparr>) of
                (Some e, w2) \<Rightarrow> (Some e, w2)
              | (None, w2) \<Rightarrow>
                  (case generateFiles g E projectPath w2 of
                     (Some e, w3) \<Rightarrow> (Some e, w3)
                   | (None, w3) \<Rightarrow>
                       (None,
                        w3\<lparr>stdout := stdout w3 @
                             [created_message (ProjectName (config g)) projectPath]\<rparr>)))))"

section \<open>Package config and the \<^verbatim>\<open>new\<close> command\<close>

text \<open>
  The form of \<^verbatim>\<open>PromptForMissingConfig\<close> is a terminal dialogue; the model takes what
  the user leaves in its fields as \<open>answers\<close>, or \<open>None\<close> when the form is cancelled.
  The project name is asked for only when it is still empty.
\<close>

record answers =
  ans_ProjectName :: string
  ans_ModulePath :: string
  ans_Author :: string
  ans_License :: string
  ans_projectType :: string

definition PromptForMissingConfig ::
  "(ProjectConfig \<Rightarrow> string \<Rightarrow> answers option) \<Rightarrow> ProjectConfig \<Rightarrow> error + ProjectConfig" where
  "PromptForMissingConfig form cfg =
     (let projectType =
            (if Type cfg = TypeCLI then ''cli''
             else if Type cfg = TypeLibrary then ''library''
             else if Type cfg = TypeService then ''service''
             else ''cli'')
      in case form cfg projectType of
           None \<Rightarrow> Inl ErrForm
         | Some a \<Rightarrow>
             (let c1 = cfg\<lparr>ProjectName :=
                              (if ProjectName cfg = [] then ans_ProjectName a
                               else ProjectName cfg),
                            ModulePath := ans_ModulePath a,
                            Author := ans_Author a,
                            License := ans_License a,
                            Type := ans_projectType a\<rparr>;
                  c2 = (if ModulePath c1 = [] then c1\<lparr>ModulePath := ProjectName c1\<rparr> else c1);
                  c3 = (if Author c2 = [] then c2\<lparr>Author := ''Your Name''\<rparr> else c2)
              in Inr c3))"

text \<open>The flags of the \<^verbatim>\<open>new\<close> command (package-level variables of package main).\<close>

record flags =
  modulePath :: string
  author :: string
  license :: string
  projectType :: string
  dryRun_flag :: bool
  interactive :: bool

text \<open>
  \<^verbatim>\<open>runNew\<close>, lines 73-122: from the arguments and the flags to the project name and
  the configuration handed to the generator. The command accepts at most one argument.
\<close>

definition runNew_config ::
  "(ProjectConfig \<Rightarrow> string \<Rightarrow> answers option) \<Rightarrow> flags \<Rightarrow> string list
     \<Rightarrow> error + (string \<times> ProjectConfig)" where
  "runNew_config form fl args =
     (let interactive' = (if args = [] then True else interactive fl);
          projectName = (case args of [] \<Rightarrow> [] | a # _ \<Rightarrow> a);
          early = (if args = [] then None else ValidateProjectName projectName)
      in case early of
           Some e \<Rightarrow> Inl e
         | None \<Rightarrow>
             (let pType = projectType fl;
                  cfg = \<lparr>ProjectName = projectName, ModulePath = modulePath fl,
                         Author = author fl, License = license fl, Type = pType\<rparr>
              in if interactive' then
                   (case PromptForMissingConfig form cfg of
                      Inl e \<Rightarrow> Inl e
                    | Inr cfg' \<Rightarrow>
                        (case ValidateProjectName (ProjectName cfg') of
                           Some e \<Rightarrow> Inl e
                         | None \<Rightarrow> Inr (projectName, cfg')))
                 else if pType \<noteq> TypeCLI \<and> pType \<noteq> TypeLibrary \<and> pType \<noteq> TypeService then
                   Inl (ErrInvalidProjectType (projectType fl))
                 else
                   (let cfg1 = (if ModulePath cfg = [] then cfg\<lparr>ModulePath := projectName\<rparr>
                                else cfg);
                        cfg2 = (if Author cfg1 = [] then cfg1\<lparr>Author := ''Your Name''\<rparr>
                                else cfg1)
                    in Inr (projectName, cfg2))))"

text \<open>\<^verbatim>\<open>runNew\<close>, lines 124-144: the working directory, the generator, the hint.\<close>

definition runNew ::
  "env \<Rightarrow> (ProjectConfig \<Rightarrow> string \<Rightarrow> answers option) \<Rightarrow> os_error + string \<Rightarrow> flags
     \<Rightarrow> string list \<Rightarrow> world \<Rightarrow> error option \<times> world" where
  "runNew E form getwd fl args w =
     (case runNew_config form fl args of
        Inl e \<Rightarrow> (Some e, w)
      | Inr (projectName, cfg) \<Rightarrow>
          (case getwd of
             Inl e \<Rightarrow> (Some (ErrGetwd e), w)
           | Inr cwd \<Rightarrow>
               (case Generate (New cfg cwd (dryRun_flag fl)) E w of
                  (Some e, w') \<Rightarrow> (Some e, w')
                | (None, w') \<Rightarrow>
                    (if \<not> dryRun_flag fl then
                       (None,
                        w'\<lparr>stdout := stdout w' @
                             [[], ''Next steps:'', ''  cd '' @ projectName, ''  make deps'',
                              ''  make build'', ''  make run'']\<rparr>)
                     else (None, w')))))"

section \<open>Notions used to state the results\<close>

text \<open>The entry a path string leads to, and the file \<^verbatim>\<open>generateFile\<close> makes of a template.\<close>

definition entry_at :: "filesystem \<Rightarrow> string \<Rightarrow> node option" where
  "entry_at fs name = (case resolve name of None \<Rightarrow> None | Some p \<Rightarrow> fs p)"

definition rendered :: "env \<Rightarrow> ProjectConfig \<Rightarrow> string \<Rightarrow> node option" where
  "rendered E cfg templateName =
     (case GetTemplate E templateName of
        Inl e \<Rightarrow> None
      | Inr tmpl \<Rightarrow> (case tmpl cfg of Inl e \<Rightarrow> None | Inr buf \<Rightarrow> Some (File buf)))"

text \<open>
  What one placeholder attempt leaves at its path, from what was there: a directory or a
  link that cannot be followed makes the write fail and stays, anything else gives way to
  the empty file.
\<close>

definition after_attempt :: "node option \<Rightarrow> node option" where
  "after_attempt e =
     (case e of Some Dir \<Rightarrow> Some Dir | Some SelfLink \<Rightarrow> Some SelfLink
      | Some (File _) \<Rightarrow> Some (File []) | None \<Rightarrow> Some (File []))"

text \<open>
  The templates \<^verbatim>\<open>generateFile\<close> is called with in a real run that gets that far:
  those of the file map, of the entry-point file and of the release workflow.
\<close>

definition required_templates :: "Generator \<Rightarrow> string list" where
  "required_templates g = map snd (files g) @ [''main.go.tmpl'', releaseWorkflow g]"

text \<open>
  A path holds the rendering of a template when the template loads and executes on the
  configuration, and the entry at the path is the file with exactly that output.
\<close>

definition holds_rendering :: "env \<Rightarrow> ProjectConfig \<Rightarrow> filesystem \<Rightarrow> string \<Rightarrow> string \<Rightarrow> bool" where
  "holds_rendering E cfg fs name templateName =
     (rendered E cfg templateName \<noteq> None \<and> entry_at fs name = rendered E cfg templateName)"

text \<open>
  A cleaned element list is \<open>normal\<close>: no empty element, no \<^verbatim>\<open>.\<close>, no separator
  inside an element, and \<^verbatim>\<open>..\<close> only at the front of a path that is not rooted.
\<close>

fun normal_rev :: "bool \<Rightarrow> string list \<Rightarrow> bool" where
  "normal_rev rooted [] = True"
| "normal_rev rooted (e # out) =
     (e \<noteq> [] \<and> e \<noteq> ''.'' \<and> CHR ''/'' \<notin> set e \<and>
      (e = ''..'' \<longrightarrow> \<not> rooted \<and> list_all (\<lambda>x. x = ''..'') out) \<and>
      normal_rev rooted out)"

definition normal :: "bool \<Rightarrow> string list \<Rightarrow> bool" where
  "normal rooted out = normal_rev rooted (rev out)"

section \<open>Concrete runs\<close>

text \<open>
  A template source with the files a CLI project needs (the release workflow names the
  project), a source with no files at all, a disk that holds the directory \<^verbatim>\<open>/w\<close>,
  and the configuration of the specification's scenario.
\<close>

definition demo_config :: ProjectConfig where
  "demo_config =
     \<lparr>ProjectName = ''demo'', ModulePath = ''demo'', Author = ''Your Name'',
      License = ''MIT'', Type = TypeCLI\<rparr>"

definition demo_env :: env where
  "demo_env =
     \<lparr>templateFS = map_of
        [(''files/README.md.tmpl'', ''# {{.ProjectName}}''),
         (''files/Makefile-cli.tmpl'', ''BINARY={{.ProjectName}}''),
         (''files/gitignore.tmpl'', ''bin/''),
         (''files/go.mod.tmpl'', ''module {{.ModulePath}}''),
         (''files/main.go.tmpl'', ''package main''),
         (''files/.github/workflows/test.yml'', ''name: test''),
         (''files/.github/workflows/release-cli.yml'', ''name: release {{.ProjectName}}'')],
      Parse = fragment_Parse,
      rangeOrder = (\<lambda>m. m)\<rparr>"

definition service_config :: ProjectConfig where
  "service_config =
     \<lparr>ProjectName = ''api'', ModulePath = ''example.com/api'', Author = ''Your Name'',
      License = ''MIT'', Type = TypeService\<rparr>"

definition service_env :: env where
  "service_env =
     \<lparr>templateFS = map_of
        [(''files/README.md.tmpl'', ''# {{.ProjectName}}''),
         (''files/Makefile-service.tmpl'', ''IMAGE={{.ProjectName}}''),
         (''files/gitignore.tmpl'', ''bin/''),
         (''files/go.mod.tmpl'', ''module {{.ModulePath}}''),
         (''files/Dockerfile-service.tmpl'', ''FROM scratch''),
         (''files/main.go.tmpl'', ''package main''),
         (''files/.github/workflows/test.yml'', ''name: test''),
         (''files/.github/workflows/release-service.yml'', ''name: image {{.ProjectName}}'')],
      Parse = fragment_Parse,
      rangeOrder = rev\<rparr>"

definition empty_env :: env where
  "empty_env = \<lparr>templateFS = (\<lambda>name. None), Parse = fragment_Parse, rangeOrder = rev\<rparr>"

definition demo_world :: world where
  "demo_world = \<lparr>disk = [(True, [''w'']) \<mapsto> Dir], stdout = []\<rparr>"

text \<open>The same disk with a link that points at itself where the project would go.\<close>

definition link_world :: world where
  "link_world =
     \<lparr>disk = [(True, [''w'']) \<mapsto> Dir, (True, [''w'', ''demo'']) \<mapsto> SelfLink], stdout = []\<rparr>"

definition demo_flags :: flags where
  "demo_flags =
     \<lparr>modulePath = [], author = [], license = ''MIT'', projectType = ''cli'',
      dryRun_flag = False, interactive = False\<rparr>"

section \<open>The directory policy\<close>

lemmas project_types = TypeCLI_def TypeLibrary_def TypeService_def

text \<open>
  Claim C5. \<^verbatim>\<open>DirectoryStructure\<close> is a function of the project type alone, with a
  list as its result for every string: the list is never empty and names no directory
  twice, and a type other than the three named ones gets the list of the CLI type.
\<close>

theorem DirectoryStructure_total_distinct:
  "DirectoryStructure t \<noteq> [] \<and> distinct (DirectoryStructure t) \<and>
   (t \<noteq> TypeCLI \<and> t \<noteq> TypeLibrary \<and> t \<noteq> TypeService \<longrightarrow>
      DirectoryStructure t = DirectoryStructure TypeCLI)"
  by (simp add: DirectoryStructure_def project_types)

theorem DirectoryStructure_total_distinct_witness:
  "''plugin'' \<noteq> TypeCLI \<and> ''plugin'' \<noteq> TypeLibrary \<and> ''plugin'' \<noteq> TypeService \<and>
   DirectoryStructure ''plugin'' = DirectoryStructure TypeCLI \<and>
   DirectoryStructure ''plugin'' \<noteq> [] \<and> distinct (DirectoryStructure ''plugin'')"
  using DirectoryStructure_total_distinct [of "''plugin''"]
  by (simp add: project_types DirectoryStructure_def)

section \<open>The project name\<close>

text \<open>
  Claim C6. \<^verbatim>\<open>ValidateProjectName\<close> accepts a name exactly when it is not empty and
  holds none of the ten characters space, slash, backslash, colon, star, question mark,
  double quote, less-than, greater-than and bar; every other name gets an error.
\<close>

theorem ValidateProjectName_rejects_exactly:
  "(ValidateProjectName name = None) =
     (name \<noteq> [] \<and>
      (\<forall>c\<in>set name.
         c \<notin> {CHR '' '', CHR ''/'', CHR 0x5C, CHR '':'', CHR ''*'', CHR ''?'', CHR 0x22,
              CHR ''<'', CHR ''>'', CHR ''|''}))"
  by (simp add: ValidateProjectName_def ContainsAny_def invalid_chars_def list_ex_iff)

theorem ValidateProjectName_rejects_exactly_witness:
  "ValidateProjectName ''demo'' = None \<and> ValidateProjectName ''my app'' \<noteq> None \<and>
   ValidateProjectName [] \<noteq> None \<and> ValidateProjectName ''a|b'' \<noteq> None"
  using ValidateProjectName_rejects_exactly [of "''demo''"]
    ValidateProjectName_rejects_exactly [of "''my app''"]
    ValidateProjectName_rejects_exactly [of "[]"]
    ValidateProjectName_rejects_exactly [of "''a|b''"]
  by simp

section \<open>Defaults of the non-interactive command\<close>

text \<open>
  Claim C8. Without the interactive flag and with the project name as the argument, a
  valid name and one of the three project types, the configuration handed to the
  generator has the project name as its module path when the flag was empty, and
  \<^verbatim>\<open>Your Name\<close> as its author when that flag was empty; the other fields are the flags.
\<close>

theorem runNew_config_defaults:
  assumes "\<not> interactive fl"
    and "ValidateProjectName name = None"
    and "projectType fl = TypeCLI \<or> projectType fl = TypeLibrary \<or> projectType fl = TypeService"
  shows "runNew_config form fl [name] =
     Inr (name,
          \<lparr>ProjectName = name,
           ModulePath = (if modulePath fl = [] then name else modulePath fl),
           Author = (if author fl = [] then ''Your Name'' else author fl),
           License = license fl,
           Type = projectType fl\<rparr>)"
  using assms by (auto simp add: runNew_config_def Let_def)

theorem runNew_config_defaults_witness:
  "\<not> interactive demo_flags \<and> ValidateProjectName ''demo'' = None \<and>
   projectType demo_flags = TypeCLI \<and> modulePath demo_flags = [] \<and> author demo_flags = [] \<and>
   runNew_config (\<lambda>cfg t. None) demo_flags [''demo''] =
     Inr (''demo'',
          \<lparr>ProjectName = ''demo'', ModulePath = ''demo'', Author = ''Your Name'',
           License = ''MIT'', Type = TypeCLI\<rparr>)"
proof -
  have a: "\<not> interactive demo_flags" by (simp add: demo_flags_def)
  have b: "ValidateProjectName ''demo'' = None" by code_simp
  have c: "projectType demo_flags = TypeCLI \<or> projectType demo_flags = TypeLibrary \<or>
           projectType demo_flags = TypeService"
    by (simp add: demo_flags_def project_types)
  show ?thesis
    using a b runNew_config_defaults [OF a b c, of "\<lambda>cfg t. None"]
    by (simp add: demo_flags_def project_types)
qed

section \<open>The existence check and the dry run\<close>

lemma os_Stat_iff:
  "os_Stat fs name =
     (\<exists>p. resolve name = Some p \<and>
          (node_at fs p = Some Dir \<or> (\<exists>content. node_at fs p = Some (File content))))"
  by (auto simp add: os_Stat_def split: option.splits node.splits)

text \<open>
  Claim C4, as the code has it. When \<^verbatim>\<open>os.Stat\<close> succeeds on the path made of the
  base directory and the project name, that is, when the path leads to a directory or a
  file (\<open>os_Stat_iff\<close>), \<^verbatim>\<open>Generate\<close> returns the already-exists error and the
  world as it was, whatever the dry-run flag says.
\<close>

theorem Generate_existing_target_fails:
  assumes "os_Stat (disk w) (Join [baseDir g, ProjectName (config g)])"
  shows "Generate (g\<lparr>dryRun := dry\<rparr>) E w =
     (Some (ErrAlreadyExists (Join [baseDir g, ProjectName (config g)])), w)"
  using assms by (simp add: Generate_def Let_def)

theorem Generate_existing_target_fails_witness:
  "os_Stat (disk demo_world) (Join [''/'', ''w'']) \<and>
   Generate (New (demo_config\<lparr>ProjectName := ''w''\<rparr>) ''/'' True) demo_env demo_world =
     (Some (ErrAlreadyExists ''/w''), demo_world) \<and>
   Generate (New (demo_config\<lparr>ProjectName := ''w''\<rparr>) ''/'' False) demo_env demo_world =
     (Some (ErrAlreadyExists ''/w''), demo_world)"
proof -
  have j: "Join [''/'', ''w''] = ''/w''" by code_simp
  have h: "os_Stat (disk demo_world)
             (Join [baseDir (New (demo_config\<lparr>ProjectName := ''w''\<rparr>) ''/'' True),
                    ProjectName (config (New (demo_config\<lparr>ProjectName := ''w''\<rparr>) ''/'' True))])"
    by code_simp
  show ?thesis
    using h j
      Generate_existing_target_fails [OF h, of True demo_env]
      Generate_existing_target_fails [OF h, of False demo_env]
    by (simp add: New_def)
qed

text \<open>
  Claim C4, as the specification states it, fails where the entry at the path is one
  \<^verbatim>\<open>os.Stat\<close> fails on. With a link that points at itself at \<^verbatim>\<open>/w/demo\<close>, the
  check lets the run through: the dry run returns success, and the real run stops at
  \<^verbatim>\<open>MkdirAll\<close> with the error of creating the project directory, not with the
  already-exists error.
\<close>

theorem Generate_passes_unfollowable_link:
  "node_at (disk link_world) (True, [''w'', ''demo'']) = Some SelfLink \<and>
   resolve (Join [''/w'', ''demo'']) = Some (True, [''w'', ''demo'']) \<and>
   \<not> os_Stat (disk link_world) (Join [''/w'', ''demo'']) \<and>
   fst (Generate (New demo_config ''/w'' True) demo_env link_world) = None \<and>
   fst (Generate (New demo_config ''/w'' False) demo_env link_world) =
     Some (ErrCreateProjectDir EEXIST)"
  by code_simp

text \<open>
  Claim C3. With the dry-run flag set and nothing at the target path, \<^verbatim>\<open>Generate\<close>
  leaves the file system exactly as it was: no directory and no file is made, so every
  directory, the parent of the target among them, has the entries it had.
\<close>

theorem Generate_dry_run_leaves_disk:
  assumes "dryRun g"
    and "\<not> os_Stat (disk w) (Join [baseDir g, ProjectName (config g)])"
  shows "disk (snd (Generate g E w)) = disk w"
  using assms by (simp add: Generate_def preview_def Let_def)

theorem Generate_dry_run_leaves_disk_witness:
  "dryRun (New demo_config ''/w'' True) \<and>
   \<not> os_Stat (disk demo_world) (Join [''/w'', ''demo'']) \<and>
   disk (snd (Generate (New demo_config ''/w'' True) demo_env demo_world)) = disk demo_world"
proof -
  have a: "dryRun (New demo_config ''/w'' True)" by (simp add: New_def)
  have b: "\<not> os_Stat (disk demo_world)
               (Join [baseDir (New demo_config ''/w'' True),
                      ProjectName (config (New demo_config ''/w'' True))])"
    by code_simp
  show ?thesis
    using a b Generate_dry_run_leaves_disk [OF a b, of demo_env]
    by (simp add: New_def demo_config_def)
qed

section \<open>Cleaned paths\<close>

text \<open>
  What \<^verbatim>\<open>Clean\<close> returns resolves to the same path as its argument, so the path
  \<^verbatim>\<open>Join\<close> makes of a directory and further elements resolves to the directory's
  names followed by what cleaning the further elements leaves on top of them.
\<close>

lemma split_sep_nonempty: "split_sep s \<noteq> []"
  by (induction s) (auto split: list.splits)

lemma split_sep_no_slash: "e \<in> set (split_sep s) \<Longrightarrow> CHR ''/'' \<notin> set e"
  by (induction s arbitrary: e) (auto split: list.splits if_splits)

lemma split_sep_append: "split_sep (a @ CHR ''/'' # b) = split_sep a @ split_sep b"
proof (induction a)
  case Nil
  show ?case by simp
next
  case (Cons c a)
  then show ?case
    using split_sep_nonempty[of a] by (cases "split_sep a") auto
qed

lemma split_sep_plain: "CHR ''/'' \<notin> set e \<Longrightarrow> split_sep e = [e]"
  by (induction e) auto

lemma split_sep_join_sep:
  "es \<noteq> [] \<Longrightarrow> \<forall>e\<in>set es. CHR ''/'' \<notin> set e \<Longrightarrow> split_sep (join_sep es) = es"
proof (induction es rule: join_sep.induct)
  case 1
  then show ?case by simp
next
  case (2 x)
  then show ?case by (simp add: split_sep_plain)
next
  case (3 x y ys)
  then show ?case by (simp add: split_sep_append split_sep_plain)
qed

lemma split_sep_join_sep_gen:
  "es \<noteq> [] \<Longrightarrow> split_sep (join_sep es) = concat (map split_sep es)"
  by (induction es rule: join_sep.induct) (simp_all add: split_sep_append)

lemma normal_Nil: "normal rooted []"
  by (simp add: normal_def)

lemma normal_snoc:
  "normal rooted (out @ [e]) =
     (e \<noteq> [] \<and> e \<noteq> ''.'' \<and> CHR ''/'' \<notin> set e \<and>
      (e = ''..'' \<longrightarrow> \<not> rooted \<and> (\<forall>x\<in>set out. x = ''..'')) \<and> normal rooted out)"
  by (simp add: normal_def list_all_iff)

lemma normal_butlast: "normal rooted out \<Longrightarrow> normal rooted (butlast out)"
  by (cases out rule: rev_cases) (simp_all add: normal_snoc)

lemma normal_last_dotdot:
  "normal rooted out \<Longrightarrow> out \<noteq> [] \<Longrightarrow> last out = ''..'' \<Longrightarrow> \<not> rooted \<and> (\<forall>x\<in>set out. x = ''..'')"
  by (cases out rule: rev_cases) (auto simp add: normal_snoc)

lemma normal_clean_step:
  assumes "normal rooted out" and "CHR ''/'' \<notin> set e"
  shows "normal rooted (clean_step rooted out e)"
proof -
  consider "e = [] \<or> e = ''.''" | "e = ''..''" | "e \<noteq> []" "e \<noteq> ''.''" "e \<noteq> ''..''"
    by blast
  then show ?thesis
  proof cases
    case 1
    then show ?thesis using assms by (auto simp add: clean_step_def)
  next
    case 2
    show ?thesis
    proof (cases "out \<noteq> [] \<and> last out \<noteq> ''..''")
      case True
      then show ?thesis using 2 assms by (simp add: clean_step_def normal_butlast)
    next
      case False
      then have "\<forall>x\<in>set out. x = ''..''"
        using normal_last_dotdot[OF assms(1)] by (cases "out = []") auto
      then show ?thesis using 2 False assms
        by (auto simp add: clean_step_def normal_snoc)
    qed
  next
    case 3
    then show ?thesis using assms by (simp add: clean_step_def normal_snoc)
  qed
qed

lemma normal_foldl:
  "normal rooted out \<Longrightarrow> \<forall>e\<in>set es. CHR ''/'' \<notin> set e \<Longrightarrow>
     normal rooted (foldl (clean_step rooted) out es)"
  by (induction es arbitrary: out) (simp_all add: normal_clean_step)

lemma normal_clean_elems: "normal (is_rooted s) (clean_elems (is_rooted s) (split_sep s))"
  unfolding clean_elems_def
  by (rule normal_foldl) (simp_all add: normal_Nil split_sep_no_slash)

lemma clean_step_normal_snoc:
  assumes "normal rooted (out @ [e])"
  shows "clean_step rooted out e = out @ [e]"
proof -
  have e: "e \<noteq> []" "e \<noteq> ''.''" and d: "e = ''..'' \<Longrightarrow> \<not> rooted \<and> (\<forall>x\<in>set out. x = ''..'')"
    using assms by (simp_all add: normal_snoc)
  show ?thesis
  proof (cases "e = ''..''")
    case True
    then have "out \<noteq> [] \<Longrightarrow> last out = ''..''" using d by simp
    then show ?thesis using True d by (auto simp add: clean_step_def)
  next
    case False
    then show ?thesis using e by (simp add: clean_step_def)
  qed
qed

lemma clean_elems_normal: "normal rooted out \<Longrightarrow> clean_elems rooted out = out"
proof (induction out rule: rev_induct)
  case Nil
  show ?case by (simp add: clean_elems_def)
next
  case (snoc e out)
  then have "clean_elems rooted out = out" by (simp add: normal_snoc)
  then show ?case
    using clean_step_normal_snoc[OF snoc.prems] by (simp add: clean_elems_def)
qed

lemma normal_elems: "normal rooted out \<Longrightarrow> e \<in> set out \<Longrightarrow> e \<noteq> [] \<and> CHR ''/'' \<notin> set e"
  by (induction out rule: rev_induct) (auto simp add: normal_snoc)

lemma join_sep_hd:
  "es \<noteq> [] \<Longrightarrow> hd es \<noteq> [] \<Longrightarrow> join_sep es \<noteq> [] \<and> hd (join_sep es) = hd (hd es)"
  by (induction es rule: join_sep.induct) auto

lemma resolve_Clean:
  assumes "s \<noteq> []"
  shows "resolve (Clean s) = resolve s"
proof -
  define r where "r = is_rooted s"
  define out where "out = clean_elems r (split_sep s)"
  have n: "normal r out" unfolding out_def r_def by (rule normal_clean_elems)
  have fixp: "clean_elems r out = out" using n by (rule clean_elems_normal)
  have res: "resolve s = Some (r, out)" using assms by (simp add: resolve_def r_def out_def)
  show ?thesis
  proof (cases "out = []")
    case True
    have "join_sep (clean_elems (is_rooted s) (split_sep s)) = []"
      using True by (simp add: out_def r_def)
    then have "Clean s = (if r then ''/'' else ''.'')"
      using assms by (cases "is_rooted s") (simp_all add: Clean_def Let_def r_def)
    then show ?thesis using res True
      by (auto simp add: resolve_def is_rooted_def clean_elems_def clean_step_def)
  next
    case False
    then obtain e es where out: "out = e # es" by (cases out) auto
    have e: "e \<noteq> []" "CHR ''/'' \<notin> set e" using normal_elems[OF n, of e] out by auto
    have noslash: "\<forall>x\<in>set out. CHR ''/'' \<notin> set x" using normal_elems[OF n] by blast
    have j: "join_sep out \<noteq> []" "hd (join_sep out) = hd e"
      using join_sep_hd[of out] out e by auto
    have sp: "split_sep (join_sep out) = out"
      using split_sep_join_sep[OF False noslash] .
    show ?thesis
    proof (cases r)
      case True
      have c: "Clean s = CHR ''/'' # join_sep out"
        using assms True by (simp add: Clean_def Let_def r_def out_def)
      have "split_sep (Clean s) = [] # out"
        unfolding c using sp by simp
      then have "clean_elems True (split_sep (Clean s)) = clean_elems True out"
        by (simp add: clean_elems_def clean_step_def)
      then show ?thesis using res fixp True c
        by (simp add: resolve_def is_rooted_def)
    next
      case False
      have c: "Clean s = join_sep out"
        using assms False j by (simp add: Clean_def Let_def r_def out_def)
      have "hd e \<noteq> CHR ''/''" using e by (cases e) auto
      then have "\<not> is_rooted (Clean s)"
        unfolding c using j by (cases "join_sep out") (auto simp add: is_rooted_def)
      then show ?thesis using res fixp False c sp j
        by (simp add: resolve_def)
    qed
  qed
qed

lemma join_sep_Cons_nonempty: "p \<noteq> [] \<Longrightarrow> join_sep (p # rest) \<noteq> []"
  by (cases rest) auto

lemma is_rooted_join_sep: "p \<noteq> [] \<Longrightarrow> is_rooted (join_sep (p # rest)) = is_rooted p"
  by (cases rest; cases p) (auto simp add: is_rooted_def)

lemma resolve_Join:
  assumes "resolve p = Some (r, cs)"
  shows "resolve (Join (p # rest)) = Some (r, foldl (clean_step r) cs (concat (map split_sep rest)))"
proof -
  have p: "p \<noteq> []" using assms by (auto simp add: resolve_def split: if_splits)
  have r: "r = is_rooted p" and cs: "cs = clean_elems r (split_sep p)"
    using assms p by (auto simp add: resolve_def)
  have "Join (p # rest) = Clean (join_sep (p # rest))" using p by (simp add: Join_def)
  then have "resolve (Join (p # rest)) = resolve (join_sep (p # rest))"
    using resolve_Clean[OF join_sep_Cons_nonempty[OF p, of rest]] by simp
  also have "\<dots> = Some (r, clean_elems r (split_sep p @ concat (map split_sep rest)))"
    using p by (simp add: resolve_def join_sep_Cons_nonempty is_rooted_join_sep r split_sep_join_sep_gen)
  finally show ?thesis by (simp add: clean_elems_def cs)
qed

section \<open>What each step changes on the disk\<close>

text \<open>
  A write changes the entry at its path and no other; \<^verbatim>\<open>MkdirAll\<close> changes only
  entries at the path and above it. The lemmas below carry this through the loops and the
  steps of a successful real run.
\<close>

lemma clean_step_real:
  "e \<noteq> [] \<Longrightarrow> e \<noteq> ''.'' \<Longrightarrow> e \<noteq> ''..'' \<Longrightarrow> clean_step rooted out e = out @ [e]"
  by (simp add: clean_step_def)

lemma split_sep_Clean_relative:
  assumes "s \<noteq> []" and "\<not> is_rooted s" and "clean_elems False (split_sep s) \<noteq> []"
  shows "split_sep (Clean s) = clean_elems False (split_sep s)"
proof -
  define out where "out = clean_elems False (split_sep s)"
  have n: "normal False out"
    using normal_clean_elems[of s] assms(2) by (simp add: out_def)
  have noslash: "\<forall>x\<in>set out. CHR ''/'' \<notin> set x" using normal_elems[OF n] by blast
  have ne: "out \<noteq> []" using assms(3) by (simp add: out_def)
  have "hd out \<noteq> []" using normal_elems[OF n, of "hd out"] ne by simp
  then have "join_sep out \<noteq> []" using join_sep_hd[of out] ne by simp
  then have "Clean s = join_sep out"
    using assms by (simp add: Clean_def Let_def out_def)
  then show ?thesis using split_sep_join_sep[OF ne noslash] by (simp add: out_def)
qed

lemma mainPath_split:
  assumes "CHR ''/'' \<notin> set name"
  shows "split_sep (Join [''cmd'', name, ''main.go'']) =
           clean_step False (clean_step False [''cmd''] name) ''main.go''"
proof -
  let ?s = "join_sep [''cmd'', name, ''main.go'']"
  have sp: "split_sep ?s = [''cmd'', name, ''main.go'']"
    by (rule split_sep_join_sep) (use assms in auto)
  have ce: "clean_elems False (split_sep ?s) = clean_step False (clean_step False [''cmd''] name) ''main.go''"
    unfolding sp by (simp add: clean_elems_def clean_step_def)
  have ne: "clean_elems False (split_sep ?s) \<noteq> []"
    unfolding ce by (simp add: clean_step_def)
  have "Join [''cmd'', name, ''main.go''] = Clean ?s" by (simp add: Join_def)
  then show ?thesis
    using split_sep_Clean_relative[of ?s] ne ce by (simp add: is_rooted_def)
qed

lemma os_WriteFile_Inr:
  "os_WriteFile fs p c = Inr fs' \<Longrightarrow> \<exists>q. resolve p = Some q \<and> fs' = fs(q \<mapsto> File c)"
  by (auto simp add: os_WriteFile_def split: option.splits node.splits)

lemma generateFile_None:
  assumes "generateFile g E pp f t w = (None, w')"
  shows "\<exists>q buf. resolve (Join [pp, f]) = Some q \<and> rendered E (config g) t = Some (File buf) \<and>
           w' = w\<lparr>disk := (disk w)(q \<mapsto> File buf)\<rparr>"
  using assms
  by (auto simp add: generateFile_def rendered_def split: sum.splits dest!: os_WriteFile_Inr)

lemma copyWorkflowFile_None:
  assumes "copyWorkflowFile g E pp d s w = (None, w')"
  shows "\<exists>q content. resolve (Join [pp, d]) = Some q \<and> GetWorkflowFile E s = Inr content \<and>
           w' = w\<lparr>disk := (disk w)(q \<mapsto> File content)\<rparr>"
  using assms
  by (auto simp add: copyWorkflowFile_def split: sum.splits dest!: os_WriteFile_Inr)

lemma generate_each_frame:
  assumes "generate_each g E pp es w = (None, w')"
    and "\<forall>(f, t)\<in>set es. resolve (Join [pp, f]) \<noteq> Some q"
  shows "disk w' q = disk w q"
  using assms
proof (induction es arbitrary: w)
  case Nil
  then show ?case by simp
next
  case (Cons a es)
  obtain f t where a: "a = (f, t)" by (cases a)
  from Cons.prems(1) obtain w1 where
    s1: "generateFile g E pp f t w = (None, w1)" and s2: "generate_each g E pp es w1 = (None, w')"
    by (auto simp add: a split: prod.splits option.splits)
  from generateFile_None[OF s1] Cons.prems(2) have "disk w1 q = disk w q"
    by (auto simp add: a)
  moreover have "disk w' q = disk w1 q"
    using Cons.IH[OF s2] Cons.prems(2) by simp
  ultimately show ?case by simp
qed

lemma generate_each_post:
  assumes "generate_each g E pp es w = (None, w')"
    and "\<exists>(f, t')\<in>set es. resolve (Join [pp, f]) = Some q"
    and "\<forall>(f, t')\<in>set es. resolve (Join [pp, f]) = Some q \<longrightarrow> t' = t"
  shows "\<exists>buf. rendered E (config g) t = Some (File buf) \<and> disk w' q = Some (File buf)"
  using assms
proof (induction es arbitrary: w)
  case Nil
  then show ?case by simp
next
  case (Cons a es)
  obtain f0 t0 where a: "a = (f0, t0)" by (cases a)
  from Cons.prems(1) obtain w1 where
    s1: "generateFile g E pp f0 t0 w = (None, w1)" and s2: "generate_each g E pp es w1 = (None, w')"
    by (auto simp add: a split: prod.splits option.splits)
  show ?case
  proof (cases "\<exists>(f, t')\<in>set es. resolve (Join [pp, f]) = Some q")
    case True
    have "\<forall>(f, t')\<in>set es. resolve (Join [pp, f]) = Some q \<longrightarrow> t' = t"
      using Cons.prems(3) by simp
    from Cons.IH[OF s2 True this] show ?thesis .
  next
    case False
    then have here: "resolve (Join [pp, f0]) = Some q" and t0: "t0 = t"
      using Cons.prems(2,3) by (auto simp add: a)
    from False have "\<forall>(f, t')\<in>set es. resolve (Join [pp, f]) \<noteq> Some q" by auto
    then have "disk w' q = disk w1 q" using generate_each_frame[OF s2] by blast
    moreover from generateFile_None[OF s1] here t0
    have "\<exists>buf. rendered E (config g) t = Some (File buf) \<and> disk w1 q = Some (File buf)" by auto
    ultimately show ?thesis by simp
  qed
qed

lemma gitkeep_each_frame:
  "\<forall>d\<in>set dirs. resolve (Join [pp, d, ''.gitkeep'']) \<noteq> Some q \<Longrightarrow>
     gitkeep_each pp dirs fs q = fs q"
proof (induction dirs arbitrary: fs)
  case Nil
  show ?case by simp
next
  case (Cons d dirs)
  then show ?case
    by (auto split: sum.splits dest!: os_WriteFile_Inr)
qed

lemma mkdir_all_frame:
  "mkdir_all fs r up = Inr fs' \<Longrightarrow> \<not> (fst q = r \<and> prefix (snd q) (rev up)) \<Longrightarrow>
     fs' q = fs q"
proof (induction up arbitrary: fs')
  case Nil
  then show ?case by simp
next
  case (Cons e up)
  have np: "\<not> (fst q = r \<and> prefix (snd q) (rev up))"
    using Cons.prems(2) by (auto simp add: prefix_def)
  have neq: "q \<noteq> (r, rev (e # up))"
  proof
    assume "q = (r, rev (e # up))"
    then have "fst q = r \<and> prefix (snd q) (rev (e # up))" by simp
    then show False using Cons.prems(2) by blast
  qed
  show ?case
  proof (cases "node_at fs (r, rev (e # up))")
    case None
    then obtain fs1 where up: "mkdir_all fs r up = Inr fs1"
      and fs': "fs' = fs1((r, rev (e # up)) \<mapsto> Dir)"
      using Cons.prems(1) by (auto split: sum.splits)
    from Cons.IH[OF up np] fs' neq show ?thesis by simp
  next
    case (Some n)
    then show ?thesis using Cons.prems(1) by (cases n) (simp_all split: sum.splits)
  qed
qed

lemma os_MkdirAll_frame:
  assumes "os_MkdirAll fs p = Inr fs'" and "resolve p = Some (r, es)"
    and "\<not> (fst q = r \<and> prefix (snd q) es)"
  shows "fs' q = fs q"
  using assms mkdir_all_frame[of fs r "rev es" fs' q]
  by (simp add: os_MkdirAll_def)

lemma os_MkdirAll_resolves: "os_MkdirAll fs p = Inr fs' \<Longrightarrow> \<exists>r es. resolve p = Some (r, es)"
  by (cases "resolve p") (auto simp add: os_MkdirAll_def)

lemma mkdir_each_frame:
  assumes "mkdir_each pp dirs fs = (None, fs')"
    and "\<forall>d\<in>set dirs. \<forall>es. resolve (Join [pp, d]) = Some (fst q, es) \<longrightarrow> \<not> prefix (snd q) es"
  shows "fs' q = fs q"
  using assms
proof (induction dirs arbitrary: fs)
  case Nil
  then show ?case by simp
next
  case (Cons d dirs)
  from Cons.prems(1) obtain fs1 where
    s1: "os_MkdirAll fs (Join [pp, d]) = Inr fs1" and s2: "mkdir_each pp dirs fs1 = (None, fs')"
    by (auto split: sum.splits)
  obtain r es where res: "resolve (Join [pp, d]) = Some (r, es)"
    using os_MkdirAll_resolves[OF s1] by blast
  have "\<not> (fst q = r \<and> prefix (snd q) es)" using Cons.prems(2) res by auto
  then have "fs1 q = fs q" using os_MkdirAll_frame[OF s1 res] by blast
  moreover have "fs' q = fs1 q" using Cons.IH[OF s2] Cons.prems(2) by simp
  ultimately show ?case by simp
qed

lemma prefix_append_self: "prefix (xs @ ys) xs = (ys = [])"
  by (auto simp add: prefix_def)

lemma DirectoryStructure_elems:
  "d \<in> set (DirectoryStructure t) \<Longrightarrow>
     split_sep d = [d] \<and> d \<noteq> [] \<and> d \<noteq> ''.'' \<and> d \<noteq> ''..'' \<and> d \<noteq> ''.github'' \<and>
     d \<noteq> ''Dockerfile'' \<and> d \<noteq> ''Makefile''"
  by (auto simp add: DirectoryStructure_def split: if_splits)

lemma ValidateProjectName_no_slash:
  "ValidateProjectName name = None \<Longrightarrow> CHR ''/'' \<notin> set name"
  by (auto simp add: ValidateProjectName_def ContainsAny_def invalid_chars_def list_ex_iff
      split: if_splits)

lemma resolve_Join_dir:
  assumes "resolve pp = Some (r, cs)" and "d \<in> set (DirectoryStructure t)"
  shows "resolve (Join [pp, d]) = Some (r, cs @ [d])"
    and "resolve (Join [pp, d, ''.gitkeep'']) = Some (r, cs @ [d, ''.gitkeep''])"
  using DirectoryStructure_elems[OF assms(2)]
  by (simp_all add: resolve_Join[OF assms(1)] clean_step_real)

lemma resolve_Join_cmd:
  assumes "resolve pp = Some (r, cs)" and "CHR ''/'' \<notin> set name"
  shows "resolve (Join [pp, ''cmd'', name]) = Some (r, clean_step r (cs @ [''cmd'']) name)"
  using assms(2) by (simp add: resolve_Join[OF assms(1)] clean_step_real split_sep_plain)

lemma resolve_Join_main:
  assumes "resolve pp = Some (r, cs)" and "CHR ''/'' \<notin> set name"
  shows "\<exists>es. resolve (Join [pp, Join [''cmd'', name, ''main.go'']]) = Some (r, es @ [''main.go''])"
  using assms(2)
  by (simp add: resolve_Join[OF assms(1)] mainPath_split clean_step_def)

lemma split_workflow_paths:
  "split_sep ''.github/workflows/test.yml'' = [''.github'', ''workflows'', ''test.yml'']"
  "split_sep ''.github/workflows/release.yml'' = [''.github'', ''workflows'', ''release.yml'']"
  by code_simp+

lemma resolve_Join_workflow:
  assumes "resolve pp = Some (r, cs)"
  shows "resolve (Join [pp, ''.github/workflows/test.yml'']) =
           Some (r, cs @ [''.github'', ''workflows'', ''test.yml''])"
    and "resolve (Join [pp, ''.github/workflows/release.yml'']) =
           Some (r, cs @ [''.github'', ''workflows'', ''release.yml''])"
    and "resolve (Join [pp, ''.github'', ''workflows'']) = Some (r, cs @ [''.github'', ''workflows''])"
  by (simp_all add: resolve_Join[OF assms(1)] split_workflow_paths clean_step_real)

lemma Generate_real_success:
  assumes "Generate g E w = (None, w')" and "\<not> dryRun g"
  obtains fs1 w2 w3 where
    "os_MkdirAll (disk w) (Join [baseDir g, ProjectName (config g)]) = Inr fs1"
    "createDirectories g (Join [baseDir g, ProjectName (config g)]) (w\<lparr>disk := fs1\<rparr>) = (None, w2)"
    "generateFiles g E (Join [baseDir g, ProjectName (config g)]) w2 = (None, w3)"
    "disk w' = disk w3"
  using assms
  by (auto simp add: Generate_def Let_def split: if_splits sum.splits prod.splits option.splits)

lemma generateFiles_success:
  assumes "generateFiles g E pp w = (None, w')"
  obtains w1 w2 w3 where
    "generate_each g E pp (rangeOrder E (files g)) w = (None, w1)"
    "generateFile g E pp (Join [''cmd'', ProjectName (config g), ''main.go'']) ''main.go.tmpl'' w1 = (None, w2)"
    "generateWorkflowFiles g E pp w2 = (None, w3)"
    "disk w' = gitkeep_each pp (DirectoryStructure (Type (config g))) (disk w3)"
  using assms
  by (auto simp add: generateFiles_def createGitkeepFiles_def split: prod.splits option.splits)

lemma generateWorkflowFiles_success:
  assumes "generateWorkflowFiles g E pp w = (None, w')" and "visits_each_once E"
  obtains w1 where
    "copyWorkflowFile g E pp ''.github/workflows/test.yml'' ''.github/workflows/test.yml'' w = (None, w1)"
    "generateFile g E pp ''.github/workflows/release.yml'' (releaseWorkflow g) w1 = (None, w')"
proof -
  have "mset (rangeOrder E commonWorkflows) = mset commonWorkflows"
    using assms(2) by (simp add: visits_each_once_def)
  then have "rangeOrder E commonWorkflows = commonWorkflows"
    by (simp add: commonWorkflows_def)
  then show ?thesis using assms(1) that
    by (auto simp add: generateWorkflowFiles_def commonWorkflows_def split: prod.splits option.splits)
qed

lemma createDirectories_frame:
  assumes "createDirectories g pp w = (None, w')"
    and "resolve pp = Some (r, cs)"
    and "CHR ''/'' \<notin> set (ProjectName (config g))"
    and "x \<notin> set (DirectoryStructure (Type (config g)))" and "x \<noteq> ''cmd''" and "x \<noteq> ''.github''"
  shows "disk w' (r, cs @ [x]) = disk w (r, cs @ [x])"
proof -
  let ?q = "(r, cs @ [x])"
  from assms(1) obtain fs1 fs2 where
    s1: "mkdir_each pp (DirectoryStructure (Type (config g))) (disk w) = (None, fs1)" and
    s2: "os_MkdirAll fs1 (Join [pp, ''cmd'', ProjectName (config g)]) = Inr fs2" and
    s3: "os_MkdirAll fs2 (Join [pp, ''.github'', ''workflows'']) = Inr (disk w')"
    by (auto simp add: createDirectories_def split: prod.splits option.splits sum.splits)
  have "fs1 ?q = disk w ?q"
    using mkdir_each_frame[OF s1, of ?q] assms(4)
    by (auto simp add: resolve_Join_dir(1)[OF assms(2)])
  moreover have "fs2 ?q = fs1 ?q"
    using os_MkdirAll_frame[OF s2 resolve_Join_cmd[OF assms(2,3)], of ?q] assms(5)
    by (auto simp add: clean_step_def prefix_append_self)
  moreover have "disk w' ?q = fs2 ?q"
    using os_MkdirAll_frame[OF s3 resolve_Join_workflow(3)[OF assms(2)], of ?q] assms(6)
    by simp
  ultimately show ?thesis by simp
qed

lemma gitkeep_each_frame_top:
  assumes "resolve pp = Some (r, cs)"
  shows "gitkeep_each pp (DirectoryStructure t) fs (r, cs @ [x]) = fs (r, cs @ [x])"
  by (rule gitkeep_each_frame) (simp add: resolve_Join_dir(2)[OF assms])

lemma gitkeep_each_frame_workflow:
  assumes "resolve pp = Some (r, cs)"
  shows "gitkeep_each pp (DirectoryStructure t) fs (r, cs @ [''.github'', ''workflows'', x]) =
           fs (r, cs @ [''.github'', ''workflows'', x])"
  by (rule gitkeep_each_frame) (simp add: resolve_Join_dir(2)[OF assms])

lemma workflows_written:
  assumes "generateWorkflowFiles g E pp w = (None, w')" and "visits_each_once E"
    and "resolve pp = Some (r, cs)"
  shows "\<exists>content buf.
           GetWorkflowFile E ''.github/workflows/test.yml'' = Inr content \<and>
           rendered E (config g) (releaseWorkflow g) = Some (File buf) \<and>
           disk w' = (disk w)
             ((r, cs @ [''.github'', ''workflows'', ''test.yml'']) \<mapsto> File content,
              (r, cs @ [''.github'', ''workflows'', ''release.yml'']) \<mapsto> File buf)"
proof -
  from generateWorkflowFiles_success[OF assms(1,2)] obtain w1 where
    c: "copyWorkflowFile g E pp ''.github/workflows/test.yml'' ''.github/workflows/test.yml'' w = (None, w1)"
    and r: "generateFile g E pp ''.github/workflows/release.yml'' (releaseWorkflow g) w1 = (None, w')"
    by blast
  from copyWorkflowFile_None[OF c] generateFile_None[OF r] show ?thesis
    by (auto simp add: resolve_Join_workflow[OF assms(3)])
qed

lemma tail_frame:
  assumes "generateFile g E pp (Join [''cmd'', ProjectName (config g), ''main.go'']) ''main.go.tmpl'' w1 = (None, w2)"
    and "generateWorkflowFiles g E pp w2 = (None, w3)" and "visits_each_once E"
    and "resolve pp = Some (r, cs)" and "CHR ''/'' \<notin> set (ProjectName (config g))"
    and "x \<noteq> ''main.go''"
  shows "gitkeep_each pp (DirectoryStructure t) (disk w3) (r, cs @ [x]) = disk w1 (r, cs @ [x])"
proof -
  obtain es where m: "resolve (Join [pp, Join [''cmd'', ProjectName (config g), ''main.go'']]) =
      Some (r, es @ [''main.go''])"
    using resolve_Join_main[OF assms(4,5)] by blast
  have "disk w2 (r, cs @ [x]) = disk w1 (r, cs @ [x])"
    using generateFile_None[OF assms(1)] m assms(6) by auto
  moreover have "disk w3 (r, cs @ [x]) = disk w2 (r, cs @ [x])"
    using workflows_written[OF assms(2,3,4)] by auto
  ultimately show ?thesis by (simp add: gitkeep_each_frame_top[OF assms(4)])
qed

lemma resolve_Join_file:
  assumes "resolve pp = Some (r, cs)" and "CHR ''/'' \<notin> set x" and "x \<noteq> []" and "x \<noteq> ''.''" and "x \<noteq> ''..''"
  shows "resolve (Join [pp, x]) = Some (r, cs @ [x])"
  using assms(2-) by (simp add: resolve_Join[OF assms(1)] clean_step_real split_sep_plain)

lemma files_visited: "visits_each_once E \<Longrightarrow> set (rangeOrder E (files g)) = set (files g)"
  by (metis visits_each_once_def mset_eq_setD)


lemma Dockerfile_not_dir: "''Dockerfile'' \<notin> set (DirectoryStructure t)"
  using DirectoryStructure_elems[of "''Dockerfile''" t] by blast

lemma Dockerfile_count:
  assumes "visits_each_once E"
  shows "length (filter (\<lambda>(f, t). f = ''Dockerfile'') (rangeOrder E (files g))) =
           (if Type (config g) = TypeService then 1 else 0)"
proof -
  have "mset (rangeOrder E (files g)) = mset (files g)"
    using assms by (simp add: visits_each_once_def)
  then have "mset (filter (\<lambda>(f, t). f = ''Dockerfile'') (rangeOrder E (files g))) =
      mset (filter (\<lambda>(f, t). f = ''Dockerfile'') (files g))"
    by simp
  then have "length (filter (\<lambda>(f, t). f = ''Dockerfile'') (rangeOrder E (files g))) =
      length (filter (\<lambda>(f, t). f = ''Dockerfile'') (files g))"
    by (rule mset_eq_length)
  then show ?thesis by (simp add: files_def)
qed


section \<open>Workflow files\<close>

text \<open>
  Claim C2, as the code has it. After a successful real run the release workflow at
  \<^verbatim>\<open>.github/workflows/release.yml\<close> is the output of executing the parsed
  project-type-specific file on the configuration, so variable substitution applies to
  it; only the test workflow is the embedded file's bytes as they are.
\<close>

theorem release_workflow_is_rendered:
  assumes "visits_each_once E" and "\<not> dryRun g" and "Generate g E w = (None, w')"
  shows "(\<exists>content tmpl buf.
            templateFS E (''files/'' @
               (if Type (config g) = TypeLibrary then ''.github/workflows/release-library.yml''
                else if Type (config g) = TypeService then ''.github/workflows/release-service.yml''
                else ''.github/workflows/release-cli.yml'')) = Some content \<and>
            Parse E
               (if Type (config g) = TypeLibrary then ''.github/workflows/release-library.yml''
                else if Type (config g) = TypeService then ''.github/workflows/release-service.yml''
                else ''.github/workflows/release-cli.yml'') content = Inr tmpl \<and>
            tmpl (config g) = Inr buf \<and>
            entry_at (disk w')
              (Join [Join [baseDir g, ProjectName (config g)], ''.github/workflows/release.yml'']) =
              Some (File buf)) \<and>
         (\<exists>content.
            templateFS E ''files/.github/workflows/test.yml'' = Some content \<and>
            entry_at (disk w')
              (Join [Join [baseDir g, ProjectName (config g)], ''.github/workflows/test.yml'']) =
              Some (File content))"
proof -
  let ?pp = "Join [baseDir g, ProjectName (config g)]"
  from Generate_real_success[OF assms(3,2)] obtain fs1 w2 w3 where
    m: "os_MkdirAll (disk w) ?pp = Inr fs1" and
    f: "generateFiles g E ?pp w2 = (None, w3)" and d: "disk w' = disk w3"
    by blast
  obtain r cs where res: "resolve ?pp = Some (r, cs)"
    using os_MkdirAll_resolves[OF m] by blast
  from generateFiles_success[OF f] obtain v2 v3 where
    wf: "generateWorkflowFiles g E ?pp v2 = (None, v3)" and
    d3: "disk w3 = gitkeep_each ?pp (DirectoryStructure (Type (config g))) (disk v3)"
    by blast
  from workflows_written[OF wf assms(1) res] obtain content buf where
    c: "GetWorkflowFile E ''.github/workflows/test.yml'' = Inr content" and
    b: "rendered E (config g) (releaseWorkflow g) = Some (File buf)" and
    dv: "disk v3 = (disk v2)
             ((r, cs @ [''.github'', ''workflows'', ''test.yml'']) \<mapsto> File content,
              (r, cs @ [''.github'', ''workflows'', ''release.yml'']) \<mapsto> File buf)"
    by blast
  have rel: "entry_at (disk w') (Join [?pp, ''.github/workflows/release.yml'']) = Some (File buf)"
    by (simp add: entry_at_def resolve_Join_workflow[OF res] d d3 dv
        gitkeep_each_frame_workflow[OF res])
  have tst: "entry_at (disk w') (Join [?pp, ''.github/workflows/test.yml'']) = Some (File content)"
    by (simp add: entry_at_def resolve_Join_workflow[OF res] d d3 dv
        gitkeep_each_frame_workflow[OF res])
  have src: "templateFS E ''files/.github/workflows/test.yml'' = Some content"
    using c by (auto simp add: GetWorkflowFile_def split: option.splits)
  let ?V = "if Type (config g) = TypeLibrary then ''.github/workflows/release-library.yml''
       else if Type (config g) = TypeService then ''.github/workflows/release-service.yml''
       else ''.github/workflows/release-cli.yml''"
  have V: "releaseWorkflow g = ?V"
    by (simp add: releaseWorkflow_def)
  from b obtain content' tmpl where
    p1: "templateFS E (''files/'' @ releaseWorkflow g) = Some content'" and
    p2: "Parse E (releaseWorkflow g) content' = Inr tmpl" and p3: "tmpl (config g) = Inr buf"
    by (auto simp add: rendered_def GetTemplate_def split: option.splits sum.splits)
  have first: "\<exists>content tmpl buf.
            templateFS E (''files/'' @ ?V) = Some content \<and> Parse E ?V content = Inr tmpl \<and>
            tmpl (config g) = Inr buf \<and>
            entry_at (disk w') (Join [?pp, ''.github/workflows/release.yml'']) = Some (File buf)"
    using p1 p2 p3 rel unfolding V by blast
  have second: "\<exists>content.
            templateFS E ''files/.github/workflows/test.yml'' = Some content \<and>
            entry_at (disk w') (Join [?pp, ''.github/workflows/test.yml'']) = Some (File content)"
    using src tst by blast
  show ?thesis using first second by (rule conjI)
qed

theorem release_workflow_is_rendered_witness:
  "visits_each_once demo_env \<and> \<not> dryRun (New demo_config ''/w'' False) \<and>
   fst (Generate (New demo_config ''/w'' False) demo_env demo_world) = None \<and>
   entry_at (disk (snd (Generate (New demo_config ''/w'' False) demo_env demo_world)))
     ''/w/demo/.github/workflows/release.yml'' = Some (File ''name: release demo'') \<and>
   entry_at (disk (snd (Generate (New demo_config ''/w'' False) demo_env demo_world)))
     ''/w/demo/.github/workflows/test.yml'' = Some (File ''name: test'')"
proof -
  have v: "visits_each_once demo_env" by (simp add: visits_each_once_def demo_env_def)
  have n: "\<not> dryRun (New demo_config ''/w'' False)" by (simp add: New_def)
  have s: "fst (Generate (New demo_config ''/w'' False) demo_env demo_world) = None"
    by code_simp
  have g: "Generate (New demo_config ''/w'' False) demo_env demo_world =
      (None, snd (Generate (New demo_config ''/w'' False) demo_env demo_world))"
    using s by (metis prod.collapse)
  have r: "entry_at (disk (snd (Generate (New demo_config ''/w'' False) demo_env demo_world)))
     ''/w/demo/.github/workflows/release.yml'' = Some (File ''name: release demo'')"
    by code_simp
  have t: "entry_at (disk (snd (Generate (New demo_config ''/w'' False) demo_env demo_world)))
     ''/w/demo/.github/workflows/test.yml'' = Some (File ''name: test'')"
    by code_simp
  show ?thesis
    using v n s r t release_workflow_is_rendered [OF v n g] by simp
qed

text \<open>
  Claim C2, as the specification states it, fails on the run of the scenario's CLI
  configuration below \<^verbatim>\<open>/w\<close>: the embedded release workflow names the project with
  a field action, and the file written has the project's name in its place, so it is not
  the embedded file byte for byte.
\<close>

theorem release_workflow_not_copied:
  "templateFS demo_env ''files/.github/workflows/release-cli.yml'' =
     Some ''name: release {{.ProjectName}}'' \<and>
   fst (Generate (New demo_config ''/w'' False) demo_env demo_world) = None \<and>
   entry_at (disk (snd (Generate (New demo_config ''/w'' False) demo_env demo_world)))
     ''/w/demo/.github/workflows/release.yml'' = Some (File ''name: release demo'') \<and>
   entry_at (disk (snd (Generate (New demo_config ''/w'' False) demo_env demo_world)))
     ''/w/demo/.github/workflows/release.yml'' \<noteq> Some (File ''name: release {{.ProjectName}}'')"
  by code_simp

section \<open>Variants by project type\<close>

text \<open>
  Claim C7. After a successful real run for a valid project name, the Makefile and the
  release workflow are the renderings of the variant of the project type (library,
  service, and CLI for every other type), a service project has the rendering of the
  container-build template at \<^verbatim>\<open>Dockerfile\<close>, every other project leaves that path
  as it was, and the loop over the file map writes \<^verbatim>\<open>Dockerfile\<close> once for a service
  and never otherwise.
\<close>

theorem Generate_type_variants:
  assumes "visits_each_once E"
    and "ValidateProjectName (ProjectName (config g)) = None"
    and "\<not> dryRun g"
    and "Generate g E w = (None, w')"
  shows "holds_rendering E (config g) (disk w')
           (Join [Join [baseDir g, ProjectName (config g)], ''Makefile''])
           (if Type (config g) = TypeLibrary then ''Makefile-library.tmpl''
            else if Type (config g) = TypeService then ''Makefile-service.tmpl''
            else ''Makefile-cli.tmpl'') \<and>
         holds_rendering E (config g) (disk w')
           (Join [Join [baseDir g, ProjectName (config g)], ''.github/workflows/release.yml''])
           (if Type (config g) = TypeLibrary then ''.github/workflows/release-library.yml''
            else if Type (config g) = TypeService then ''.github/workflows/release-service.yml''
            else ''.github/workflows/release-cli.yml'') \<and>
         (if Type (config g) = TypeService then
            holds_rendering E (config g) (disk w')
              (Join [Join [baseDir g, ProjectName (config g)], ''Dockerfile''])
              ''Dockerfile-service.tmpl''
          else
            entry_at (disk w') (Join [Join [baseDir g, ProjectName (config g)], ''Dockerfile'']) =
            entry_at (disk w) (Join [Join [baseDir g, ProjectName (config g)], ''Dockerfile''])) \<and>
         length (filter (\<lambda>(f, t). f = ''Dockerfile'') (rangeOrder E (files g))) =
           (if Type (config g) = TypeService then 1 else 0)"
proof -
  let ?pp = "Join [baseDir g, ProjectName (config g)]"
  let ?cfg = "config g"
  have ns: "CHR ''/'' \<notin> set (ProjectName ?cfg)"
    using assms(2) by (rule ValidateProjectName_no_slash)
  from Generate_real_success[OF assms(4,3)] obtain fs1 w2 w3 where
    m: "os_MkdirAll (disk w) ?pp = Inr fs1" and
    cd: "createDirectories g ?pp (w\<lparr>disk := fs1\<rparr>) = (None, w2)" and
    f: "generateFiles g E ?pp w2 = (None, w3)" and d: "disk w' = disk w3"
    by blast
  obtain r cs where res: "resolve ?pp = Some (r, cs)"
    using os_MkdirAll_resolves[OF m] by blast
  from generateFiles_success[OF f] obtain v1 v2 v3 where
    ge: "generate_each g E ?pp (rangeOrder E (files g)) w2 = (None, v1)" and
    mn: "generateFile g E ?pp (Join [''cmd'', ProjectName ?cfg, ''main.go'']) ''main.go.tmpl'' v1 = (None, v2)" and
    wf: "generateWorkflowFiles g E ?pp v2 = (None, v3)" and
    d3: "disk w3 = gitkeep_each ?pp (DirectoryStructure (Type ?cfg)) (disk v3)"
    by blast
  have vis: "set (rangeOrder E (files g)) = set (files g)"
    using assms(1) by (rule files_visited)
  have top: "disk w' (r, cs @ [x]) = disk v1 (r, cs @ [x])" if "x \<noteq> ''main.go''" for x
    using tail_frame[OF mn wf assms(1) res ns that] by (simp add: d d3)
  have paths:
    "resolve (Join [?pp, ''README.md'']) = Some (r, cs @ [''README.md''])"
    "resolve (Join [?pp, ''Makefile'']) = Some (r, cs @ [''Makefile''])"
    "resolve (Join [?pp, ''.gitignore'']) = Some (r, cs @ [''.gitignore''])"
    "resolve (Join [?pp, ''go.mod'']) = Some (r, cs @ [''go.mod''])"
    "resolve (Join [?pp, ''Dockerfile'']) = Some (r, cs @ [''Dockerfile''])"
    by (simp_all add: resolve_Join_file[OF res])

  have mk: "\<exists>buf. rendered E ?cfg (getMakefileTemplate g) = Some (File buf) \<and>
      disk v1 (r, cs @ [''Makefile'']) = Some (File buf)"
    by (rule generate_each_post[OF ge]) (simp_all only: vis, auto simp add: files_def paths)
  have mkv: "getMakefileTemplate g =
      (if Type ?cfg = TypeLibrary then ''Makefile-library.tmpl''
       else if Type ?cfg = TypeService then ''Makefile-service.tmpl''
       else ''Makefile-cli.tmpl'')"
    by (simp add: getMakefileTemplate_def)
  have c1: "holds_rendering E ?cfg (disk w') (Join [?pp, ''Makefile''])
      (if Type ?cfg = TypeLibrary then ''Makefile-library.tmpl''
       else if Type ?cfg = TypeService then ''Makefile-service.tmpl''
       else ''Makefile-cli.tmpl'')"
    using mk top[of "''Makefile''"] unfolding mkv
    by (auto simp add: holds_rendering_def entry_at_def paths)

  from workflows_written[OF wf assms(1) res] obtain content buf where
    b: "rendered E ?cfg (releaseWorkflow g) = Some (File buf)" and
    dv: "disk v3 = (disk v2)
             ((r, cs @ [''.github'', ''workflows'', ''test.yml'']) \<mapsto> File content,
              (r, cs @ [''.github'', ''workflows'', ''release.yml'']) \<mapsto> File buf)"
    by blast
  have rv: "releaseWorkflow g =
      (if Type ?cfg = TypeLibrary then ''.github/workflows/release-library.yml''
       else if Type ?cfg = TypeService then ''.github/workflows/release-service.yml''
       else ''.github/workflows/release-cli.yml'')"
    by (simp add: releaseWorkflow_def)
  have "entry_at (disk w') (Join [?pp, ''.github/workflows/release.yml'']) = Some (File buf)"
    by (simp add: entry_at_def resolve_Join_workflow[OF res] d d3 dv
        gitkeep_each_frame_workflow[OF res])
  then have c2: "holds_rendering E ?cfg (disk w') (Join [?pp, ''.github/workflows/release.yml''])
      (if Type ?cfg = TypeLibrary then ''.github/workflows/release-library.yml''
       else if Type ?cfg = TypeService then ''.github/workflows/release-service.yml''
       else ''.github/workflows/release-cli.yml'')"
    using b unfolding rv by (simp add: holds_rendering_def)

  have c3: "holds_rendering E ?cfg (disk w') (Join [?pp, ''Dockerfile'']) ''Dockerfile-service.tmpl''"
    if s: "Type ?cfg = TypeService"
  proof -
    have "\<exists>buf. rendered E ?cfg ''Dockerfile-service.tmpl'' = Some (File buf) \<and>
        disk v1 (r, cs @ [''Dockerfile'']) = Some (File buf)"
      by (rule generate_each_post[OF ge]) (simp_all only: vis, auto simp add: files_def paths s)
    then show ?thesis using top[of "''Dockerfile''"]
      by (auto simp add: holds_rendering_def entry_at_def paths)
  qed
  have c4: "entry_at (disk w') (Join [?pp, ''Dockerfile'']) = entry_at (disk w) (Join [?pp, ''Dockerfile''])"
    if s: "Type ?cfg \<noteq> TypeService"
  proof -
    have "fs1 (r, cs @ [''Dockerfile'']) = disk w (r, cs @ [''Dockerfile''])"
      using os_MkdirAll_frame[OF m res, of "(r, cs @ [''Dockerfile''])"]
      by (simp add: prefix_append_self)
    moreover have "disk w2 (r, cs @ [''Dockerfile'']) = fs1 (r, cs @ [''Dockerfile''])"
      using createDirectories_frame[OF cd res ns Dockerfile_not_dir] by simp
    moreover have "disk v1 (r, cs @ [''Dockerfile'']) = disk w2 (r, cs @ [''Dockerfile''])"
      by (rule generate_each_frame[OF ge]) (simp_all only: vis, auto simp add: files_def paths s)
    ultimately show ?thesis using top[of "''Dockerfile''"]
      by (simp add: entry_at_def paths)
  qed
  show ?thesis using c1 c2 c3 c4 Dockerfile_count[OF assms(1), of g] by simp
qed

theorem Generate_type_variants_witness:
  "visits_each_once service_env \<and>
   ValidateProjectName (ProjectName service_config) = None \<and>
   fst (Generate (New service_config ''/w'' False) service_env demo_world) = None \<and>
   entry_at (disk (snd (Generate (New service_config ''/w'' False) service_env demo_world)))
     ''/w/api/Dockerfile'' = Some (File ''FROM scratch'') \<and>
   entry_at (disk (snd (Generate (New service_config ''/w'' False) service_env demo_world)))
     ''/w/api/Makefile'' = Some (File ''IMAGE=api'') \<and>
   entry_at (disk (snd (Generate (New service_config ''/w'' False) service_env demo_world)))
     ''/w/api/.github/workflows/release.yml'' = Some (File ''name: image api'') \<and>
   fst (Generate (New demo_config ''/w'' False) demo_env demo_world) = None \<and>
   entry_at (disk (snd (Generate (New demo_config ''/w'' False) demo_env demo_world)))
     ''/w/demo/Dockerfile'' = None"
proof -
  have v: "visits_each_once service_env" by (simp add: visits_each_once_def service_env_def)
  have a: "ValidateProjectName (ProjectName (config (New service_config ''/w'' False))) = None"
    by code_simp
  have n: "\<not> dryRun (New service_config ''/w'' False)" by (simp add: New_def)
  have s: "fst (Generate (New service_config ''/w'' False) service_env demo_world) = None"
    by code_simp
  have g: "Generate (New service_config ''/w'' False) service_env demo_world =
      (None, snd (Generate (New service_config ''/w'' False) service_env demo_world))"
    using s by (metis prod.collapse)
  have e: "entry_at (disk (snd (Generate (New service_config ''/w'' False) service_env demo_world)))
     ''/w/api/Dockerfile'' = Some (File ''FROM scratch'') \<and>
   entry_at (disk (snd (Generate (New service_config ''/w'' False) service_env demo_world)))
     ''/w/api/Makefile'' = Some (File ''IMAGE=api'') \<and>
   entry_at (disk (snd (Generate (New service_config ''/w'' False) service_env demo_world)))
     ''/w/api/.github/workflows/release.yml'' = Some (File ''name: image api'') \<and>
   fst (Generate (New demo_config ''/w'' False) demo_env demo_world) = None \<and>
   entry_at (disk (snd (Generate (New demo_config ''/w'' False) demo_env demo_world)))
     ''/w/demo/Dockerfile'' = None"
    by code_simp
  show ?thesis
    using v a s e Generate_type_variants [OF v a n g] by (simp add: New_def)
qed

section \<open>Placeholder files\<close>

text \<open>
  \<^verbatim>\<open>MkdirAll\<close> leaves a directory at its path and keeps every entry that was there, so
  each policy directory is a directory when the placeholder step is reached, and the step
  finds at each placeholder's path what was there before the run.
\<close>

lemma node_at_real: "e \<noteq> ''..'' \<Longrightarrow> node_at fs (r, cs @ [e]) = fs (r, cs @ [e])"
  by (simp add: node_at_def)

lemma node_at_None: "node_at fs q = None \<Longrightarrow> fs q = None"
  by (simp add: node_at_def split: if_splits)

lemma mkdir_all_makes_dir: "mkdir_all fs r up = Inr fs' \<Longrightarrow> node_at fs' (r, rev up) = Some Dir"
proof (induction up arbitrary: fs')
  case Nil
  then show ?case by (simp add: node_at_def)
next
  case (Cons e up)
  show ?case
  proof (cases "node_at fs (r, rev (e # up))")
    case None
    then obtain fs1 where "fs' = fs1((r, rev (e # up)) \<mapsto> Dir)"
      using Cons.prems by (auto split: sum.splits)
    then show ?thesis by (simp add: node_at_def)
  next
    case (Some n)
    then show ?thesis using Cons.prems by (cases n) (simp_all split: sum.splits)
  qed
qed

lemma mkdir_all_keeps: "mkdir_all fs r up = Inr fs' \<Longrightarrow> fs q = Some n \<Longrightarrow> fs' q = Some n"
proof (induction up arbitrary: fs')
  case Nil
  then show ?case by simp
next
  case (Cons e up)
  show ?case
  proof (cases "node_at fs (r, rev (e # up))")
    case None
    then obtain fs1 where up: "mkdir_all fs r up = Inr fs1"
      and fs': "fs' = fs1((r, rev (e # up)) \<mapsto> Dir)"
      using Cons.prems(1) by (auto split: sum.splits)
    have "q \<noteq> (r, rev (e # up))" using node_at_None[OF None] Cons.prems(2) by auto
    then show ?thesis using Cons.IH[OF up Cons.prems(2)] fs' by simp
  next
    case (Some m)
    then show ?thesis using Cons.prems by (cases m) (simp_all split: sum.splits)
  qed
qed

lemma os_MkdirAll_makes_dir:
  "os_MkdirAll fs p = Inr fs' \<Longrightarrow> resolve p = Some q \<Longrightarrow> node_at fs' q = Some Dir"
  using mkdir_all_makes_dir[of fs "fst q" "rev (snd q)" fs']
  by (simp add: os_MkdirAll_def)

lemma os_MkdirAll_keeps:
  "os_MkdirAll fs p = Inr fs' \<Longrightarrow> fs q = Some n \<Longrightarrow> fs' q = Some n"
  by (cases "resolve p") (auto simp add: os_MkdirAll_def dest: mkdir_all_keeps)

lemma mkdir_each_keeps:
  "mkdir_each pp dirs fs = (None, fs') \<Longrightarrow> fs q = Some n \<Longrightarrow> fs' q = Some n"
proof (induction dirs arbitrary: fs)
  case Nil
  then show ?case by simp
next
  case (Cons d dirs)
  from Cons.prems(1) obtain fs1 where
    s1: "os_MkdirAll fs (Join [pp, d]) = Inr fs1" and s2: "mkdir_each pp dirs fs1 = (None, fs')"
    by (auto split: sum.splits)
  show ?case using Cons.IH[OF s2 os_MkdirAll_keeps[OF s1 Cons.prems(2)]] .
qed

lemma mkdir_each_makes_dirs:
  assumes "mkdir_each pp dirs fs = (None, fs')" and "resolve pp = Some (r, cs)"
    and "set dirs \<subseteq> set (DirectoryStructure t)" and "d \<in> set dirs"
  shows "fs' (r, cs @ [d]) = Some Dir"
  using assms(1,3,4)
proof (induction dirs arbitrary: fs)
  case Nil
  then show ?case by simp
next
  case (Cons d0 dirs)
  from Cons.prems(1) obtain fs1 where
    s1: "os_MkdirAll fs (Join [pp, d0]) = Inr fs1" and s2: "mkdir_each pp dirs fs1 = (None, fs')"
    by (auto split: sum.splits)
  have d0: "d0 \<in> set (DirectoryStructure t)" using Cons.prems(2) by simp
  show ?case
  proof (cases "d \<in> set dirs")
    case True
    then show ?thesis using Cons.IH[OF s2] Cons.prems(2) by simp
  next
    case False
    then have "d = d0" using Cons.prems(3) by simp
    then have "node_at fs1 (r, cs @ [d]) = Some Dir"
      using os_MkdirAll_makes_dir[OF s1 resolve_Join_dir(1)[OF assms(2) d0]] by simp
    moreover have "d \<noteq> ''..''" using DirectoryStructure_elems[OF d0] \<open>d = d0\<close> by simp
    ultimately have "fs1 (r, cs @ [d]) = Some Dir" by (simp add: node_at_real)
    then show ?thesis by (rule mkdir_each_keeps[OF s2])
  qed
qed

lemma createDirectories_steps:
  assumes "createDirectories g pp w = (None, w')"
  obtains fs1 fs2 where
    "mkdir_each pp (DirectoryStructure (Type (config g))) (disk w) = (None, fs1)"
    "os_MkdirAll fs1 (Join [pp, ''cmd'', ProjectName (config g)]) = Inr fs2"
    "os_MkdirAll fs2 (Join [pp, ''.github'', ''workflows'']) = Inr (disk w')"
  using assms
  by (auto simp add: createDirectories_def split: prod.splits option.splits sum.splits)

lemma createDirectories_makes_dirs:
  assumes "createDirectories g pp w = (None, w')" and "resolve pp = Some (r, cs)"
    and "d \<in> set (DirectoryStructure (Type (config g)))"
  shows "disk w' (r, cs @ [d]) = Some Dir"
proof -
  from createDirectories_steps[OF assms(1)] obtain fs1 fs2 where
    s1: "mkdir_each pp (DirectoryStructure (Type (config g))) (disk w) = (None, fs1)" and
    s2: "os_MkdirAll fs1 (Join [pp, ''cmd'', ProjectName (config g)]) = Inr fs2" and
    s3: "os_MkdirAll fs2 (Join [pp, ''.github'', ''workflows'']) = Inr (disk w')"
    by blast
  have "fs1 (r, cs @ [d]) = Some Dir"
    using mkdir_each_makes_dirs[OF s1 assms(2) subset_refl assms(3)] .
  then have "fs2 (r, cs @ [d]) = Some Dir" by (rule os_MkdirAll_keeps[OF s2])
  then show ?thesis by (rule os_MkdirAll_keeps[OF s3])
qed

lemma createDirectories_frame_placeholder:
  assumes "createDirectories g pp w = (None, w')" and "resolve pp = Some (r, cs)"
    and "CHR ''/'' \<notin> set (ProjectName (config g))"
    and "d \<noteq> ''.github''" and "d \<noteq> ''cmd'' \<or> ProjectName (config g) \<noteq> ''.gitkeep''"
  shows "disk w' (r, cs @ [d, ''.gitkeep'']) = disk w (r, cs @ [d, ''.gitkeep''])"
proof -
  let ?q = "(r, cs @ [d, ''.gitkeep''])"
  from createDirectories_steps[OF assms(1)] obtain fs1 fs2 where
    s1: "mkdir_each pp (DirectoryStructure (Type (config g))) (disk w) = (None, fs1)" and
    s2: "os_MkdirAll fs1 (Join [pp, ''cmd'', ProjectName (config g)]) = Inr fs2" and
    s3: "os_MkdirAll fs2 (Join [pp, ''.github'', ''workflows'']) = Inr (disk w')"
    by blast
  have "fs1 ?q = disk w ?q"
    using mkdir_each_frame[OF s1, of ?q]
    by (auto simp add: resolve_Join_dir(1)[OF assms(2)])
  moreover have "fs2 ?q = fs1 ?q"
    using os_MkdirAll_frame[OF s2 resolve_Join_cmd[OF assms(2,3)], of ?q] assms(5)
    by (auto simp add: clean_step_def prefix_append_self)
  moreover have "disk w' ?q = fs2 ?q"
    using os_MkdirAll_frame[OF s3 resolve_Join_workflow(3)[OF assms(2)], of ?q] assms(4)
    by simp
  ultimately show ?thesis by simp
qed

lemma createDirectories_cmd_gitkeep:
  assumes "createDirectories g pp w = (None, w')" and "resolve pp = Some (r, cs)"
    and "ProjectName (config g) = ''.gitkeep''"
  shows "disk w' (r, cs @ [''cmd'', ''.gitkeep'']) = Some Dir"
proof -
  from createDirectories_steps[OF assms(1)] obtain fs1 fs2 where
    s2: "os_MkdirAll fs1 (Join [pp, ''cmd'', ProjectName (config g)]) = Inr fs2" and
    s3: "os_MkdirAll fs2 (Join [pp, ''.github'', ''workflows'']) = Inr (disk w')"
    by blast
  have "resolve (Join [pp, ''cmd'', ProjectName (config g)]) = Some (r, cs @ [''cmd'', ''.gitkeep''])"
    using resolve_Join_cmd[OF assms(2), of "ProjectName (config g)"] assms(3)
    by (simp add: clean_step_def)
  from os_MkdirAll_makes_dir[OF s2 this]
  have "fs2 (r, cs @ [''cmd'', ''.gitkeep'']) = Some Dir"
    using node_at_real[of "''.gitkeep''" fs2 r "cs @ [''cmd'']"] by simp
  then show ?thesis by (rule os_MkdirAll_keeps[OF s3])
qed

lemma main_workflows_frame:
  assumes "generateFile g E pp (Join [''cmd'', ProjectName (config g), ''main.go'']) ''main.go.tmpl'' w1 = (None, w2)"
    and "generateWorkflowFiles g E pp w2 = (None, w3)" and "visits_each_once E"
    and "resolve pp = Some (r, cs)" and "CHR ''/'' \<notin> set (ProjectName (config g))"
    and "ys \<noteq> []" and "last ys \<noteq> ''main.go''" and "length ys \<le> 2"
  shows "disk w3 (r, cs @ ys) = disk w1 (r, cs @ ys)"
proof -
  obtain es where m: "resolve (Join [pp, Join [''cmd'', ProjectName (config g), ''main.go'']]) =
      Some (r, es @ [''main.go''])"
    using resolve_Join_main[OF assms(4,5)] by blast
  have "es @ [''main.go''] \<noteq> cs @ ys"
  proof
    assume "es @ [''main.go''] = cs @ ys"
    then have "last (es @ [''main.go'']) = last (cs @ ys)" by simp
    then show False using assms(6,7) by simp
  qed
  then have "disk w2 (r, cs @ ys) = disk w1 (r, cs @ ys)"
    using generateFile_None[OF assms(1)] m by auto
  moreover have "disk w3 (r, cs @ ys) = disk w2 (r, cs @ ys)"
    using workflows_written[OF assms(2,3,4)] assms(8) by auto
  ultimately show ?thesis by simp
qed

lemma gitkeep_each_frame_skip:
  "\<forall>d\<in>set dirs. d \<noteq> ''cmd'' \<longrightarrow> resolve (Join [pp, d, ''.gitkeep'']) \<noteq> Some q \<Longrightarrow>
     gitkeep_each pp dirs fs q = fs q"
proof (induction dirs arbitrary: fs)
  case Nil
  show ?case by simp
next
  case (Cons d dirs)
  then show ?case
    by (auto simp add: skipDirs_def split: sum.splits dest!: os_WriteFile_Inr)
qed

lemma placeholder_write:
  assumes "fs (r, cs @ [d]) = Some Dir" and "d \<noteq> ''..''"
    and "resolve p = Some (r, cs @ [d, ''.gitkeep''])"
  shows "(case os_WriteFile fs p [] of Inl e \<Rightarrow> fs | Inr fs' \<Rightarrow> fs') =
           fs((r, cs @ [d, ''.gitkeep'']) := after_attempt (fs (r, cs @ [d, ''.gitkeep''])))"
proof -
  have "butlast (cs @ [d, ''.gitkeep'']) = cs @ [d]" by (simp add: butlast_append)
  then have par: "node_at fs (parent (r, cs @ [d, ''.gitkeep''])) = Some Dir"
    using assms(1,2) by (simp add: parent_def node_at_def)
  have tgt: "node_at fs (r, cs @ [d, ''.gitkeep'']) = fs (r, cs @ [d, ''.gitkeep''])"
    by (simp add: node_at_def)
  show ?thesis
  proof (cases "fs (r, cs @ [d, ''.gitkeep''])")
    case None
    then show ?thesis using par tgt assms(3)
      by (simp add: os_WriteFile_def after_attempt_def)
  next
    case (Some n)
    then show ?thesis using par tgt assms(3)
      by (cases n) (auto simp add: os_WriteFile_def after_attempt_def)
  qed
qed

lemma after_attempt_idem: "after_attempt (after_attempt e) = after_attempt e"
  by (auto simp add: after_attempt_def split: option.splits node.splits)

lemma gitkeep_each_post:
  assumes "resolve pp = Some (r, cs)" and "set dirs \<subseteq> set (DirectoryStructure t)"
    and "d \<in> set dirs" and "d \<noteq> ''cmd''" and "fs (r, cs @ [d]) = Some Dir"
  shows "gitkeep_each pp dirs fs (r, cs @ [d, ''.gitkeep'']) =
           after_attempt (fs (r, cs @ [d, ''.gitkeep'']))"
  using assms(2,3,5)
proof (induction dirs arbitrary: fs)
  case Nil
  then show ?case by simp
next
  case (Cons d0 dirs)
  let ?q = "(r, cs @ [d, ''.gitkeep''])"
  have d0: "d0 \<in> set (DirectoryStructure t)" using Cons.prems(1) by simp
  have sub: "set dirs \<subseteq> set (DirectoryStructure t)" using Cons.prems(1) by simp
  have res0: "resolve (Join [pp, d0, ''.gitkeep'']) = Some (r, cs @ [d0, ''.gitkeep''])"
    by (rule resolve_Join_dir(2)[OF assms(1) d0])
  define fs1 where "fs1 = (if skipDirs d0 then fs
      else (case os_WriteFile fs (Join [pp, d0, ''.gitkeep'']) [] of Inl e \<Rightarrow> fs | Inr fs' \<Rightarrow> fs'))"
  have step: "gitkeep_each pp (d0 # dirs) fs = gitkeep_each pp dirs fs1"
    by (simp add: fs1_def split: sum.splits)
  have par1: "fs1 (r, cs @ [d]) = Some Dir"
  proof (cases "skipDirs d0")
    case True
    then show ?thesis using Cons.prems(3) by (simp add: fs1_def)
  next
    case False
    then show ?thesis using Cons.prems(3) res0
      by (auto simp add: fs1_def split: sum.splits dest!: os_WriteFile_Inr)
  qed
  have here: "fs1 ?q = after_attempt (fs ?q)" if "d0 = d"
  proof -
    have "\<not> skipDirs d0" using that assms(4) by (simp add: skipDirs_def)
    moreover have "d \<noteq> ''..''" using DirectoryStructure_elems[OF d0] that by simp
    ultimately show ?thesis
      using placeholder_write[of fs r cs d "Join [pp, d, ''.gitkeep'']"] Cons.prems(3) res0 that
      by (simp add: fs1_def)
  qed
  have other: "fs1 ?q = fs ?q" if "d0 \<noteq> d"
  proof (cases "skipDirs d0")
    case True
    then show ?thesis by (simp add: fs1_def)
  next
    case False
    then show ?thesis using that res0
      by (auto simp add: fs1_def split: sum.splits dest!: os_WriteFile_Inr)
  qed
  show ?case
  proof (cases "d \<in> set dirs")
    case True
    have "gitkeep_each pp dirs fs1 ?q = after_attempt (fs1 ?q)"
      using Cons.IH[of fs1] sub True par1 by blast
    then show ?thesis
      unfolding step using here other by (cases "d0 = d") (simp_all add: after_attempt_idem)
  next
    case False
    then have eq: "d0 = d" using Cons.prems(2) by simp
    have "gitkeep_each pp dirs fs1 ?q = fs1 ?q"
    proof (rule gitkeep_each_frame_skip, intro ballI impI)
      fix d' assume "d' \<in> set dirs" and "d' \<noteq> ''cmd''"
      then have "d' \<in> set (DirectoryStructure t)" and "d' \<noteq> d" using sub False by auto
      then show "resolve (Join [pp, d', ''.gitkeep'']) \<noteq> Some ?q"
        by (simp add: resolve_Join_dir(2)[OF assms(1)])
    qed
    then show ?thesis unfolding step using here[OF eq] by simp
  qed
qed

lemma gitkeep_each_cmd:
  assumes "resolve pp = Some (r, cs)"
  shows "gitkeep_each pp (DirectoryStructure t) fs (r, cs @ [''cmd'', ''.gitkeep'']) =
           fs (r, cs @ [''cmd'', ''.gitkeep''])"
  by (rule gitkeep_each_frame_skip) (simp add: resolve_Join_dir(2)[OF assms])

lemma DirectoryStructure_not_files:
  "d \<in> set (DirectoryStructure t) \<Longrightarrow>
     d \<noteq> ''README.md'' \<and> d \<noteq> ''.gitignore'' \<and> d \<noteq> ''go.mod'' \<and> d \<noteq> ''main.go''"
  by (auto simp add: DirectoryStructure_def split: if_splits)

lemma generateFiles_templates_fst:
  "fst (generateFiles g E p w) = fst (generateFiles_templates g E p w)"
  by (auto simp add: generateFiles_def generateFiles_templates_def createGitkeepFiles_def
      split: prod.splits option.splits)

lemma gitkeep_each_foldl:
  "gitkeep_each p dirs fs =
     foldl (\<lambda>fs dir.
              case os_WriteFile fs (Join [p, dir, ''.gitkeep'']) [] of
                Inl e \<Rightarrow> fs
              | Inr fs' \<Rightarrow> fs')
       fs (filter (\<lambda>dir. dir \<noteq> ''cmd'') dirs)"
  by (induction dirs arbitrary: fs) (simp_all add: skipDirs_def split: sum.splits)

lemma placeholders_after_run:
  assumes "visits_each_once E"
    and "ValidateProjectName (ProjectName (config g)) = None"
    and "\<not> dryRun g"
    and "Generate g E w = (None, w')"
  shows "(\<forall>dir\<in>set (DirectoryStructure (Type (config g))). dir \<noteq> ''cmd'' \<longrightarrow>
            entry_at (disk w') (Join [Join [baseDir g, ProjectName (config g)], dir, ''.gitkeep'']) =
            after_attempt
              (entry_at (disk w) (Join [Join [baseDir g, ProjectName (config g)], dir, ''.gitkeep'']))) \<and>
         entry_at (disk w') (Join [Join [baseDir g, ProjectName (config g)], ''cmd'', ''.gitkeep'']) =
           (if ProjectName (config g) = ''.gitkeep'' then Some Dir
            else entry_at (disk w) (Join [Join [baseDir g, ProjectName (config g)], ''cmd'', ''.gitkeep'']))"
proof -
  let ?pp = "Join [baseDir g, ProjectName (config g)]"
  let ?cfg = "config g"
  let ?dirs = "DirectoryStructure (Type ?cfg)"
  have ns: "CHR ''/'' \<notin> set (ProjectName ?cfg)"
    using assms(2) by (rule ValidateProjectName_no_slash)
  from Generate_real_success[OF assms(4,3)] obtain fs1 w2 w3 where
    m: "os_MkdirAll (disk w) ?pp = Inr fs1" and
    cd: "createDirectories g ?pp (w\<lparr>disk := fs1\<rparr>) = (None, w2)" and
    f: "generateFiles g E ?pp w2 = (None, w3)" and d: "disk w' = disk w3"
    by blast
  obtain r cs where res: "resolve ?pp = Some (r, cs)"
    using os_MkdirAll_resolves[OF m] by blast
  from generateFiles_success[OF f] obtain v1 v2 v3 where
    ge: "generate_each g E ?pp (rangeOrder E (files g)) w2 = (None, v1)" and
    mn: "generateFile g E ?pp (Join [''cmd'', ProjectName ?cfg, ''main.go'']) ''main.go.tmpl'' v1 = (None, v2)" and
    wf: "generateWorkflowFiles g E ?pp v2 = (None, v3)" and
    d3: "disk w3 = gitkeep_each ?pp ?dirs (disk v3)"
    by blast
  have vis: "set (rangeOrder E (files g)) = set (files g)"
    using assms(1) by (rule files_visited)
  have paths:
    "resolve (Join [?pp, ''README.md'']) = Some (r, cs @ [''README.md''])"
    "resolve (Join [?pp, ''Makefile'']) = Some (r, cs @ [''Makefile''])"
    "resolve (Join [?pp, ''.gitignore'']) = Some (r, cs @ [''.gitignore''])"
    "resolve (Join [?pp, ''go.mod'']) = Some (r, cs @ [''go.mod''])"
    "resolve (Join [?pp, ''Dockerfile'']) = Some (r, cs @ [''Dockerfile''])"
    by (simp_all add: resolve_Join_file[OF res])
  have loop2: "disk v1 (r, cs @ [x, y]) = disk w2 (r, cs @ [x, y])" for x y
    by (rule generate_each_frame[OF ge]) (simp only: vis, auto simp add: files_def paths)
  have tail2: "disk v3 (r, cs @ [x, ''.gitkeep'']) = disk v1 (r, cs @ [x, ''.gitkeep''])" for x
    using main_workflows_frame[OF mn wf assms(1) res ns, of "[x, ''.gitkeep'']"] by simp
  have first2: "fs1 (r, cs @ [x, y]) = disk w (r, cs @ [x, y])" for x y
    using os_MkdirAll_frame[OF m res, of "(r, cs @ [x, y])"] by (simp add: prefix_append_self)

  have each: "entry_at (disk w') (Join [?pp, dir, ''.gitkeep'']) =
      after_attempt (entry_at (disk w) (Join [?pp, dir, ''.gitkeep'']))"
    if mem: "dir \<in> set ?dirs" and nc: "dir \<noteq> ''cmd''" for dir
  proof -
    note el = DirectoryStructure_elems[OF mem] DirectoryStructure_not_files[OF mem]
    have rp: "resolve (Join [?pp, dir, ''.gitkeep'']) = Some (r, cs @ [dir, ''.gitkeep''])"
      by (rule resolve_Join_dir(2)[OF res mem])
    have "disk w2 (r, cs @ [dir]) = Some Dir"
      by (rule createDirectories_makes_dirs[OF cd res mem])
    moreover have "disk v1 (r, cs @ [dir]) = disk w2 (r, cs @ [dir])"
      by (rule generate_each_frame[OF ge]) (simp only: vis, use el in \<open>auto simp add: files_def paths\<close>)
    moreover have "disk v3 (r, cs @ [dir]) = disk v1 (r, cs @ [dir])"
      using main_workflows_frame[OF mn wf assms(1) res ns, of "[dir]"] el by simp
    ultimately have par: "disk v3 (r, cs @ [dir]) = Some Dir" by simp
    have "disk w2 (r, cs @ [dir, ''.gitkeep'']) = fs1 (r, cs @ [dir, ''.gitkeep''])"
      using createDirectories_frame_placeholder[OF cd res ns, of dir] el nc by simp
    then have same: "disk v3 (r, cs @ [dir, ''.gitkeep'']) = disk w (r, cs @ [dir, ''.gitkeep''])"
      by (simp add: tail2 loop2 first2)
    have "disk w' (r, cs @ [dir, ''.gitkeep'']) =
        after_attempt (disk v3 (r, cs @ [dir, ''.gitkeep'']))"
      unfolding d d3
      using gitkeep_each_post[of ?pp r cs ?dirs "Type ?cfg" dir "disk v3"] res mem nc par
      by simp
    then show ?thesis by (simp add: entry_at_def rp same)
  qed

  have rc: "resolve (Join [?pp, ''cmd'', ''.gitkeep'']) = Some (r, cs @ [''cmd'', ''.gitkeep''])"
    by (simp add: resolve_Join[OF res] clean_step_real split_sep_plain)
  have last_cmd: "disk w' (r, cs @ [''cmd'', ''.gitkeep'']) = disk w2 (r, cs @ [''cmd'', ''.gitkeep''])"
    by (simp add: d d3 gitkeep_each_cmd[OF res] tail2 loop2)
  have cmd: "entry_at (disk w') (Join [?pp, ''cmd'', ''.gitkeep'']) =
      (if ProjectName ?cfg = ''.gitkeep'' then Some Dir
       else entry_at (disk w) (Join [?pp, ''cmd'', ''.gitkeep'']))"
  proof (cases "ProjectName ?cfg = ''.gitkeep''")
    case True
    have "entry_at (disk w') (Join [?pp, ''cmd'', ''.gitkeep'']) = Some Dir"
      using createDirectories_cmd_gitkeep[OF cd res True] by (simp add: entry_at_def rc last_cmd)
    then show ?thesis using True by simp
  next
    case False
    have "disk w2 (r, cs @ [''cmd'', ''.gitkeep'']) = fs1 (r, cs @ [''cmd'', ''.gitkeep''])"
      using createDirectories_frame_placeholder[OF cd res ns, of "''cmd''"] False by simp
    then show ?thesis using False by (simp add: entry_at_def rc last_cmd first2)
  qed
  show ?thesis using each cmd by blast
qed


text \<open>
  Claim C9. \<^verbatim>\<open>createGitkeepFiles\<close> returns success from every state and prints
  nothing; what it does to the disk is one attempt to write an empty \<^verbatim>\<open>.gitkeep\<close> in
  each directory of \<^verbatim>\<open>DirectoryStructure\<close> other than \<^verbatim>\<open>cmd\<close>, in order, a failed
  attempt leaving the disk as it was. \<^verbatim>\<open>generateFiles\<close> returns the error of its steps
  before the placeholders, and so does a real run of \<^verbatim>\<open>Generate\<close> that has made its
  directories: no placeholder write decides whether the run succeeds. After a successful
  real run for a valid project name, each of those directories has had its attempt: its
  \<^verbatim>\<open>.gitkeep\<close> is the empty file, unless a directory or a link that cannot be followed
  was at that path before the run, which is still there; and \<^verbatim>\<open>cmd/.gitkeep\<close> is what
  it was before the run, or the entry-point directory when the project itself is named
  \<^verbatim>\<open>.gitkeep\<close>.
\<close>

theorem placeholders_in_real_run:
  "fst (createGitkeepFiles g p w0) = None \<and>
   stdout (snd (createGitkeepFiles g p w0)) = stdout w0 \<and>
   disk (snd (createGitkeepFiles g p w0)) =
     foldl (\<lambda>fs dir.
              case os_WriteFile fs (Join [p, dir, ''.gitkeep'']) [] of
                Inl e \<Rightarrow> fs
              | Inr fs' \<Rightarrow> fs')
       (disk w0) (filter (\<lambda>dir. dir \<noteq> ''cmd'') (DirectoryStructure (Type (config g)))) \<and>
   fst (generateFiles g E p w0) = fst (generateFiles_templates g E p w0) \<and>
   (\<not> dryRun g \<and> \<not> os_Stat (disk w) (Join [baseDir g, ProjectName (config g)]) \<and>
    os_MkdirAll (disk w) (Join [baseDir g, ProjectName (config g)]) = Inr fs1 \<and>
    createDirectories g (Join [baseDir g, ProjectName (config g)]) (w\<lparr>disk := fs1\<rparr>) = (None, w2) \<longrightarrow>
      fst (Generate g E w) =
        fst (generateFiles_templates g E (Join [baseDir g, ProjectName (config g)]) w2)) \<and>
   (visits_each_once E \<and> ValidateProjectName (ProjectName (config g)) = None \<and>
    \<not> dryRun g \<and> Generate g E w = (None, w') \<longrightarrow>
      (\<forall>dir\<in>set (DirectoryStructure (Type (config g))). dir \<noteq> ''cmd'' \<longrightarrow>
          entry_at (disk w') (Join [Join [baseDir g, ProjectName (config g)], dir, ''.gitkeep'']) =
          after_attempt
            (entry_at (disk w) (Join [Join [baseDir g, ProjectName (config g)], dir, ''.gitkeep'']))) \<and>
      entry_at (disk w') (Join [Join [baseDir g, ProjectName (config g)], ''cmd'', ''.gitkeep'']) =
        (if ProjectName (config g) = ''.gitkeep'' then Some Dir
         else entry_at (disk w) (Join [Join [baseDir g, ProjectName (config g)], ''cmd'', ''.gitkeep''])))"
proof -
  have a: "fst (createGitkeepFiles g p w0) = None"
    and b: "stdout (snd (createGitkeepFiles g p w0)) = stdout w0"
    by (simp_all add: createGitkeepFiles_def)
  have c: "disk (snd (createGitkeepFiles g p w0)) =
     foldl (\<lambda>fs dir.
              case os_WriteFile fs (Join [p, dir, ''.gitkeep'']) [] of
                Inl e \<Rightarrow> fs
              | Inr fs' \<Rightarrow> fs')
       (disk w0) (filter (\<lambda>dir. dir \<noteq> ''cmd'') (DirectoryStructure (Type (config g))))"
    by (simp add: createGitkeepFiles_def gitkeep_each_foldl)
  have e: "fst (Generate g E w) =
      fst (generateFiles_templates g E (Join [baseDir g, ProjectName (config g)]) w2)"
    if "\<not> dryRun g" and "\<not> os_Stat (disk w) (Join [baseDir g, ProjectName (config g)])"
      and "os_MkdirAll (disk w) (Join [baseDir g, ProjectName (config g)]) = Inr fs1"
      and "createDirectories g (Join [baseDir g, ProjectName (config g)]) (w\<lparr>disk := fs1\<rparr>) = (None, w2)"
  proof -
    have "fst (Generate g E w) = fst (generateFiles g E (Join [baseDir g, ProjectName (config g)]) w2)"
      using that by (simp add: Generate_def Let_def split: prod.splits option.splits)
    then show ?thesis by (simp add: generateFiles_templates_fst)
  qed
  show ?thesis
    using a b c generateFiles_templates_fst[of g E p w0] e placeholders_after_run[of E g w w']
    by blast
qed


theorem placeholders_in_real_run_witness:
  "visits_each_once demo_env \<and> ValidateProjectName (ProjectName demo_config) = None \<and>
   \<not> os_Stat (disk demo_world) (Join [''/w'', ''demo'']) \<and>
   \<not> isl (os_MkdirAll (disk demo_world) (Join [''/w'', ''demo''])) \<and>
   fst (createDirectories (New demo_config ''/w'' False) (Join [''/w'', ''demo''])
          (demo_world\<lparr>disk := projr (os_MkdirAll (disk demo_world) (Join [''/w'', ''demo'']))\<rparr>)) = None \<and>
   fst (Generate (New demo_config ''/w'' False) demo_env demo_world) = None \<and>
   list_all (\<lambda>dir.
       entry_at (disk demo_world) (Join [''/w/demo'', dir, ''.gitkeep'']) = None \<and>
       entry_at (disk (snd (Generate (New demo_config ''/w'' False) demo_env demo_world)))
         (Join [''/w/demo'', dir, ''.gitkeep'']) = Some (File []))
     [''internal'', ''pkg'', ''api'', ''configs'', ''scripts'', ''build'', ''test'', ''docs'',
      ''examples''] \<and>
   entry_at (disk (snd (Generate (New demo_config ''/w'' False) demo_env demo_world)))
     (Join [''/w/demo'', ''cmd'', ''.gitkeep'']) = None \<and>
   isl (os_WriteFile (disk demo_world) (Join [''/w/demo'', ''internal'', ''.gitkeep'']) []) \<and>
   fst (createGitkeepFiles (New demo_config ''/w'' False) ''/w/demo'' demo_world) = None \<and>
   entry_at (disk (snd (createGitkeepFiles (New demo_config ''/w'' False) ''/w/demo'' demo_world)))
     ''/w/demo/internal/.gitkeep'' = None"
proof -
  let ?g = "New demo_config ''/w'' False"
  let ?pp = "Join [baseDir ?g, ProjectName (config ?g)]"
  let ?fs1 = "projr (os_MkdirAll (disk demo_world) ?pp)"
  let ?w2 = "snd (createDirectories ?g ?pp (demo_world\<lparr>disk := ?fs1\<rparr>))"
  have v: "visits_each_once demo_env" by (simp add: visits_each_once_def demo_env_def)
  have a: "ValidateProjectName (ProjectName (config ?g)) = None" by code_simp
  have n: "\<not> dryRun ?g" by (simp add: New_def)
  have st: "\<not> os_Stat (disk demo_world) ?pp" by code_simp
  have mk: "\<not> isl (os_MkdirAll (disk demo_world) ?pp)" by code_simp
  then have mk': "os_MkdirAll (disk demo_world) ?pp = Inr ?fs1" by simp
  have cd: "fst (createDirectories ?g ?pp (demo_world\<lparr>disk := ?fs1\<rparr>)) = None" by code_simp
  then have cd': "createDirectories ?g ?pp (demo_world\<lparr>disk := ?fs1\<rparr>) = (None, ?w2)"
    by (metis prod.collapse)
  have s: "fst (Generate ?g demo_env demo_world) = None" by code_simp
  then have g: "Generate ?g demo_env demo_world = (None, snd (Generate ?g demo_env demo_world))"
    by (metis prod.collapse)
  have r: "list_all (\<lambda>dir.
       entry_at (disk demo_world) (Join [''/w/demo'', dir, ''.gitkeep'']) = None \<and>
       entry_at (disk (snd (Generate ?g demo_env demo_world)))
         (Join [''/w/demo'', dir, ''.gitkeep'']) = Some (File []))
     [''internal'', ''pkg'', ''api'', ''configs'', ''scripts'', ''build'', ''test'', ''docs'',
      ''examples''] \<and>
   entry_at (disk (snd (Generate ?g demo_env demo_world)))
     (Join [''/w/demo'', ''cmd'', ''.gitkeep'']) = None \<and>
   isl (os_WriteFile (disk demo_world) (Join [''/w/demo'', ''internal'', ''.gitkeep'']) []) \<and>
   entry_at (disk (snd (createGitkeepFiles ?g ''/w/demo'' demo_world)))
     ''/w/demo/internal/.gitkeep'' = None"
    by code_simp
  show ?thesis
    using v a n st mk cd s r mk' cd' g
      placeholders_in_real_run [of ?g "''/w/demo''" demo_world demo_env demo_world ?fs1 ?w2
        "snd (Generate ?g demo_env demo_world)"]
    by (simp add: New_def demo_config_def)
qed

section \<open>The dry run and the template source\<close>

lemma generate_each_rendered:
  "generate_each g E pp es w = (None, w') \<Longrightarrow> (f, t) \<in> set es \<Longrightarrow>
     rendered E (config g) t \<noteq> None"
proof (induction es arbitrary: w)
  case Nil
  then show ?case by simp
next
  case (Cons a es)
  obtain f0 t0 where a: "a = (f0, t0)" by (cases a)
  from Cons.prems(1) obtain w1 where
    s1: "generateFile g E pp f0 t0 w = (None, w1)" and s2: "generate_each g E pp es w1 = (None, w')"
    by (auto simp add: a split: prod.splits option.splits)
  show ?case
  proof (cases "(f, t) = (f0, t0)")
    case True
    then show ?thesis using generateFile_None[OF s1] by auto
  next
    case False
    then have "(f, t) \<in> set es" using Cons.prems(2) a by auto
    then show ?thesis using Cons.IH[OF s2] by blast
  qed
qed

lemma real_run_needs_templates:
  assumes "visits_each_once E" and "\<not> dryRun g" and "Generate g E w = (None, w')"
  shows "(\<forall>t\<in>set (required_templates g). rendered E (config g) t \<noteq> None) \<and>
         \<not> isl (GetWorkflowFile E ''.github/workflows/test.yml'')"
proof -
  let ?pp = "Join [baseDir g, ProjectName (config g)]"
  from Generate_real_success[OF assms(3,2)] obtain fs1 w2 w3 where
    m: "os_MkdirAll (disk w) ?pp = Inr fs1" and
    f: "generateFiles g E ?pp w2 = (None, w3)"
    by blast
  obtain r cs where res: "resolve ?pp = Some (r, cs)"
    using os_MkdirAll_resolves[OF m] by blast
  from generateFiles_success[OF f] obtain v1 v2 v3 where
    ge: "generate_each g E ?pp (rangeOrder E (files g)) w2 = (None, v1)" and
    mn: "generateFile g E ?pp (Join [''cmd'', ProjectName (config g), ''main.go''])
           ''main.go.tmpl'' v1 = (None, v2)" and
    wf: "generateWorkflowFiles g E ?pp v2 = (None, v3)"
    by blast
  have "rendered E (config g) t \<noteq> None" if "t \<in> set (map snd (files g))" for t
  proof -
    from that obtain fl where "(fl, t) \<in> set (files g)" by auto
    then have "(fl, t) \<in> set (rangeOrder E (files g))"
      using files_visited[OF assms(1), of g] by simp
    then show ?thesis by (rule generate_each_rendered[OF ge])
  qed
  moreover have "rendered E (config g) ''main.go.tmpl'' \<noteq> None"
    using generateFile_None[OF mn] by auto
  moreover have "rendered E (config g) (releaseWorkflow g) \<noteq> None"
    and "\<not> isl (GetWorkflowFile E ''.github/workflows/test.yml'')"
    using workflows_written[OF wf assms(1) res] by auto
  ultimately show ?thesis by (auto simp add: required_templates_def)
qed

text \<open>
  Claim C10. With nothing at the target path, a dry run returns success whatever the
  template source holds, and returns the same for any two sources: it never looks at
  one. The real run of the same generator returns an error whenever one of the templates
  it needs does not load or execute, or the test workflow file is missing.
\<close>

theorem dry_run_ignores_template_source:
  assumes "\<not> os_Stat (disk w) (Join [baseDir g, ProjectName (config g)])"
  shows "fst (Generate (g\<lparr>dryRun := True\<rparr>) E w) = None \<and>
     Generate (g\<lparr>dryRun := True\<rparr>) E w = Generate (g\<lparr>dryRun := True\<rparr>) E' w \<and>
     (visits_each_once E \<and>
      ((\<exists>t\<in>set (required_templates g). rendered E (config g) t = None) \<or>
       isl (GetWorkflowFile E ''.github/workflows/test.yml'')) \<longrightarrow>
      fst (Generate (g\<lparr>dryRun := False\<rparr>) E w) \<noteq> None)"
proof -
  have dry: "fst (Generate (g\<lparr>dryRun := True\<rparr>) E w) = None"
    using assms by (simp add: Generate_def preview_def Let_def)
  have same: "Generate (g\<lparr>dryRun := True\<rparr>) E w = Generate (g\<lparr>dryRun := True\<rparr>) E' w"
    by (simp add: Generate_def Let_def)
  have req: "required_templates (g\<lparr>dryRun := False\<rparr>) = required_templates g"
    by (simp add: required_templates_def files_def getMakefileTemplate_def releaseWorkflow_def)
  have real: "fst (Generate (g\<lparr>dryRun := False\<rparr>) E w) \<noteq> None"
    if v: "visits_each_once E"
      and bad: "(\<exists>t\<in>set (required_templates g). rendered E (config g) t = None) \<or>
                isl (GetWorkflowFile E ''.github/workflows/test.yml'')"
  proof
    assume "fst (Generate (g\<lparr>dryRun := False\<rparr>) E w) = None"
    then have "Generate (g\<lparr>dryRun := False\<rparr>) E w =
        (None, snd (Generate (g\<lparr>dryRun := False\<rparr>) E w))"
      by (metis prod.collapse)
    from real_run_needs_templates[OF v _ this] bad show False
      by (auto simp add: req)
  qed
  show ?thesis using dry same real by blast
qed

theorem dry_run_ignores_template_source_witness:
  "\<not> os_Stat (disk demo_world) (Join [''/w'', ''demo'']) \<and>
   visits_each_once empty_env \<and>
   ''main.go.tmpl'' \<in> set (required_templates (New demo_config ''/w'' False)) \<and>
   rendered empty_env demo_config ''main.go.tmpl'' = None \<and>
   fst (Generate (New demo_config ''/w'' True) empty_env demo_world) = None \<and>
   fst (Generate (New demo_config ''/w'' False) empty_env demo_world) \<noteq> None"
proof -
  have b: "\<not> os_Stat (disk demo_world)
               (Join [baseDir (New demo_config ''/w'' False),
                      ProjectName (config (New demo_config ''/w'' False))])"
    by code_simp
  have v: "visits_each_once empty_env"
    by (simp add: visits_each_once_def empty_env_def)
  have m: "''main.go.tmpl'' \<in> set (required_templates (New demo_config ''/w'' False))"
    by (simp add: required_templates_def)
  have t: "rendered empty_env (config (New demo_config ''/w'' False)) ''main.go.tmpl'' = None"
    by (simp add: rendered_def GetTemplate_def empty_env_def)
  have bad: "\<exists>t\<in>set (required_templates (New demo_config ''/w'' False)).
      rendered empty_env (config (New demo_config ''/w'' False)) t = None"
    using m t by blast
  show ?thesis
    using b v m t bad dry_run_ignores_template_source [OF b, of empty_env empty_env]
    by (simp add: New_def demo_config_def)
qed

section \<open>The preview and the real run\<close>

text \<open>
  Claim C1, evaluated on the code. For the scenario's CLI configuration below \<^verbatim>\<open>/w\<close>
  the dry run and the real run both succeed. The dry run prints ten policy directories,
  \<^verbatim>\<open>cmd/demo\<close> and five files. The real run also makes \<^verbatim>\<open>.github\<close>,
  \<^verbatim>\<open>.github/workflows\<close>, the two workflow files and nine placeholder files: each of
  these thirteen paths is absent before the run, present after it, and is not the path
  of any entry the dry run reports.
\<close>

theorem preview_omits_created_paths:
  "fst (Generate (New demo_config ''/w'' True) demo_env demo_world) = None \<and>
   stdout (snd (Generate (New demo_config ''/w'' True) demo_env demo_world)) =
     [''Dry run mode - no files will be created'', [], ''Project: demo'',
      ''Location: /w/demo'', ''Module Path: demo'', ''Type: cli'', [],
      ''Directories to be created:'', ''  cmd/'', ''  internal/'', ''  pkg/'', ''  api/'',
      ''  configs/'', ''  scripts/'', ''  build/'', ''  test/'', ''  docs/'', ''  examples/'',
      ''  cmd/demo/'', [], ''Files to be created:'', ''  README.md'', ''  Makefile'',
      ''  .gitignore'', ''  go.mod'', ''  cmd/demo/main.go''] \<and>
   fst (Generate (New demo_config ''/w'' False) demo_env demo_world) = None \<and>
   list_all (\<lambda>name.
       entry_at (disk demo_world) (Join [''/w/demo'', name]) = None \<and>
       entry_at (disk (snd (Generate (New demo_config ''/w'' False) demo_env demo_world)))
         (Join [''/w/demo'', name]) \<noteq> None \<and>
       resolve (Join [''/w/demo'', name]) \<notin>
         set (map (\<lambda>e. resolve (Join [''/w/demo'', e]))
                (preview_dirs (New demo_config ''/w'' True) @
                 preview_files (New demo_config ''/w'' True))))
     [''.github'', ''.github/workflows'', ''.github/workflows/test.yml'',
      ''.github/workflows/release.yml'', ''internal/.gitkeep'', ''pkg/.gitkeep'',
      ''api/.gitkeep'', ''configs/.gitkeep'', ''scripts/.gitkeep'', ''build/.gitkeep'',
      ''test/.gitkeep'', ''docs/.gitkeep'', ''examples/.gitkeep'']"
  by code_simp

end
